theory Spec2Isabelle
  imports Complex_Main "HOL-Library.Word"
begin

section \<open>dfuConstants.js\<close>

text \<open>
  The frozen constant tables of \<^verbatim>\<open>dfuConstants.js\<close>. Each
  \<^verbatim>\<open>Object.freeze({...})\<close> literal is an association list from property
  name to number, in the order of the source; a property read is a lookup.
\<close>

definition ControlPointOpcode :: "(string \<times> nat) list" where
  "ControlPointOpcode =
     [(''CREATE'', 0x01),
      (''SET_PRN'', 0x02),
      (''CALCULATE_CRC'', 0x03),
      (''EXECUTE'', 0x04),
      (''SELECT'', 0x06),
      (''RESPONSE'', 0x60)]"

definition ResultCode :: "(string \<times> nat) list" where
  "ResultCode =
     [(''INVALID_CODE'', 0x00),
      (''SUCCESS'', 0x01),
      (''OPCODE_NOT_SUPPORTED'', 0x02),
      (''INVALID_PARAMETER'', 0x03),
      (''INSUFFICIENT_RESOURCES'', 0x04),
      (''INVALID_OBJECT'', 0x05),
      (''UNSUPPORTED_TYPE'', 0x07),
      (''OPERATION_NOT_PERMITTED'', 0x08),
      (''OPERATION_FAILED'', 0x0A)]"

definition ObjectType :: "(string \<times> nat) list" where
  "ObjectType =
     [(''COMMAND'', 0x01),
      (''DATA'', 0x02)]"

definition ErrorCode :: "(string \<times> nat) list" where
  "ErrorCode =
     [(''ABORTED'', 0x01),
      (''NOTIFICATION_TIMEOUT'', 0x02),
      (''UNEXPECTED_NOTIFICATION'', 0x03),
      (''INVALID_CRC'', 0x04),
      (''INVALID_OFFSET'', 0x05),
      (''WRITE_ERROR'', 0x06),
      (''COMMAND_ERROR'', 0x07),
      (''NO_DFU_CHARACTERISTIC'', 0x08),
      (''NO_DFU_SERVICE'', 0x09),
      (''NOTIFICATION_START_ERROR'', 0x10),
      (''NOTIFICATION_STOP_ERROR'', 0x11),
      (''INIT_PACKET_TOO_LARGE'', 0x12),
      (''DISCONNECTION_TIMEOUT'', 0x13),
      (''CONNECTION_PARAM_ERROR'', 0x14),
      (''ATT_MTU_ERROR'', 0x15)]"

text \<open>
  A property read \<^verbatim>\<open>Table.NAME\<close>. Reading a name that the table does not
  hold gives \<^verbatim>\<open>undefined\<close> in JavaScript, here \<open>None\<close>.
\<close>

definition readProp :: "(string \<times> nat) list \<Rightarrow> string \<Rightarrow> nat option" where
  "readProp table name = map_of table name"

text \<open>The constants the transport reads, as the numbers the tables give them.\<close>

definition ObjectType_COMMAND :: nat where
  "ObjectType_COMMAND = 0x01"

definition ObjectType_DATA :: nat where
  "ObjectType_DATA = 0x02"

definition ErrorCode_ABORTED :: nat where
  "ErrorCode_ABORTED = 0x01"

definition ErrorCode_NOTIFICATION_TIMEOUT :: nat where
  "ErrorCode_NOTIFICATION_TIMEOUT = 0x02"

definition ErrorCode_INVALID_CRC :: nat where
  "ErrorCode_INVALID_CRC = 0x04"

definition ErrorCode_INVALID_OFFSET :: nat where
  "ErrorCode_INVALID_OFFSET = 0x05"

definition ErrorCode_COMMAND_ERROR :: nat where
  "ErrorCode_COMMAND_ERROR = 0x07"

definition ErrorCode_NOTIFICATION_START_ERROR :: nat where
  "ErrorCode_NOTIFICATION_START_ERROR = 0x10"

definition ErrorCode_DISCONNECTION_TIMEOUT :: nat where
  "ErrorCode_DISCONNECTION_TIMEOUT = 0x13"

definition ErrorCode_CONNECTION_PARAM_ERROR :: nat where
  "ErrorCode_CONNECTION_PARAM_ERROR = 0x14"

text \<open>
  An error value: a JavaScript \<^verbatim>\<open>Error\<close> with a message and, when
  \<^verbatim>\<open>createError\<close> made it, a numeric \<^verbatim>\<open>code\<close>. An error raised by
  a collaborator need not carry a code (\<open>None\<close> is \<^verbatim>\<open>undefined\<close>).
\<close>

record error =
  code :: "nat option"
  message :: string

definition createError :: "nat \<Rightarrow> string \<Rightarrow> error" where
  "createError c m = \<lparr>code = Some c, message = m\<rparr>"

text \<open>Decimal rendering of a number inside a template string.\<close>

fun string_of_nat :: "nat \<Rightarrow> string" where
  "string_of_nat n =
     (if n < 10 then [''0123456789'' ! n]
      else string_of_nat (n div 10) @ [''0123456789'' ! (n mod 10)])"

declare string_of_nat.simps [simp del]


section \<open>Values exchanged with the collaborators\<close>

type_synonym byte = "8 word"

text \<open>
  \<^verbatim>\<open>{offset, crc32}\<close>: the progress an object write resolves with, and the
  response of \<^verbatim>\<open>calculateChecksum\<close>. The response of
  \<^verbatim>\<open>selectObject\<close> has \<^verbatim>\<open>maximumSize\<close> as well.
\<close>

record progress =
  offset :: nat
  crc32 :: nat

record selectResponse = progress +
  maximumSize :: nat

text \<open>
  The transfer states of \<^verbatim>\<open>dfuModels\<close>, with the properties the
  transport reads. Their constructors are not part of the transport and are
  parameters of the model (see \<open>env\<close>).
\<close>

record transferState = progress +
  isResumable :: bool

record initPacketState = transferState +
  remainingData :: "byte list"

record firmwareState = transferState +
  remainingPartialObject :: "byte list"
  remainingObjects :: "byte list list"

text \<open>An entry of \<^verbatim>\<open>adapter.getDevices()\<close>.\<close>

record device =
  address :: string
  instanceId :: string
  connected :: bool

record connParams =
  min_conn_interval :: rat
  max_conn_interval :: rat
  slave_latency :: nat
  conn_sup_timeout :: nat

record scanParams =
  active :: bool
  interval :: nat
  window :: nat
  timeout :: nat

record connectOptions =
  opt_scanParams :: scanParams
  opt_connParams :: connParams

record addressParams =
  ap_address :: string
  ap_type :: string

text \<open>The argument of a \<^verbatim>\<open>packetWritten\<close> event of the object writer.\<close>

record packetWritten =
  pw_offset :: nat
  pw_type :: nat

text \<open>
  A \<^verbatim>\<open>progressUpdate\<close> event: \<^verbatim>\<open>{stage, offset?}\<close>. An absent
  \<^verbatim>\<open>offset\<close> property is \<open>None\<close>.
\<close>

record event =
  stage :: string
  event_offset :: "nat option"

record transportParameters =
  targetAddress :: string
  targetAddressType :: string
  prnValue :: "nat option"
  mtuSize :: "nat option"

section \<open>dfuTransport.js: constants\<close>

definition MAX_RETRIES :: nat where
  "MAX_RETRIES = 3"

definition DFU_SERVICE_UUID :: string where
  "DFU_SERVICE_UUID = ''FE59''"

definition DFU_CONTROL_POINT_UUID :: string where
  "DFU_CONTROL_POINT_UUID = ''8EC90001F3154F609FB8838830DAEA50''"

definition DFU_PACKET_UUID :: string where
  "DFU_PACKET_UUID = ''8EC90002F3154F609FB8838830DAEA50''"

definition DEFAULT_CONNECTION_PARAMS :: connParams where
  "DEFAULT_CONNECTION_PARAMS =
     \<lparr>min_conn_interval = 15 / 2,
      max_conn_interval = 15 / 2,
      slave_latency = 0,
      conn_sup_timeout = 4000\<rparr>"

definition DEFAULT_SCAN_PARAMS :: scanParams where
  "DEFAULT_SCAN_PARAMS =
     \<lparr>active = True,
      interval = 100,
      window = 50,
      timeout = 20\<rparr>"

definition TIMEOUT_MS :: nat where
  "TIMEOUT_MS = 10000"

section \<open>The collaborators and the state of a transport\<close>

text \<open>
  The adapter, \<^verbatim>\<open>DeviceInfoService\<close>, \<^verbatim>\<open>ControlPointService\<close>,
  \<^verbatim>\<open>DfuObjectWriter\<close> and the state constructors of \<^verbatim>\<open>dfuModels\<close>
  are outside the transport. They are parameters: each operation is a function of the
  state \<open>'w\<close> of everything outside the transport (the adapter, the link, the device,
  the service objects the transport created), giving the value its promise or callback
  delivers and the new outside state. Nothing is assumed about them.

  \<^item> A promise-returning operation gives \<open>Inl error\<close> when it rejects.
  \<^item> A callback-taking adapter operation gives the callback's \<^verbatim>\<open>err\<close>.
  \<^item> \<^verbatim>\<open>writeObject\<close> also gives the \<^verbatim>\<open>packetWritten\<close> events the
    writer emitted during the write, in order.
  \<^item> \<^verbatim>\<open>getDevices\<close> gives the entries of the device table in the order
    of \<^verbatim>\<open>Object.keys\<close>, each with its key.
\<close>

record 'w env =
  adapter_getDevices :: "'w \<Rightarrow> (string \<times> device) list"
  adapter_connect :: "addressParams \<Rightarrow> connectOptions \<Rightarrow> 'w \<Rightarrow> (error + device) \<times> 'w"
  adapter_startCharacteristicsNotifications :: "string \<Rightarrow> bool \<Rightarrow> 'w \<Rightarrow> error option \<times> 'w"
  adapter_updateConnectionParameters :: "string \<Rightarrow> connParams \<Rightarrow> 'w \<Rightarrow> error option \<times> 'w"
  deviceInfoService_getCharacteristicId ::
    "string \<Rightarrow> string \<Rightarrow> string \<Rightarrow> 'w \<Rightarrow> (error + string) \<times> 'w"
  new_ControlPointService :: "string \<Rightarrow> 'w \<Rightarrow> 'w"
  new_DfuObjectWriter :: "string \<Rightarrow> string \<Rightarrow> 'w \<Rightarrow> 'w"
  controlPointService_selectObject :: "nat \<Rightarrow> 'w \<Rightarrow> (error + selectResponse) \<times> 'w"
  controlPointService_createObject :: "nat \<Rightarrow> nat \<Rightarrow> 'w \<Rightarrow> (error + unit) \<times> 'w"
  controlPointService_setPRN :: "nat \<Rightarrow> 'w \<Rightarrow> (error + unit) \<times> 'w"
  controlPointService_calculateChecksum :: "'w \<Rightarrow> (error + progress) \<times> 'w"
  controlPointService_execute :: "'w \<Rightarrow> (error + unit) \<times> 'w"
  objectWriter_writeObject ::
    "byte list \<Rightarrow> nat \<Rightarrow> nat option \<Rightarrow> nat option \<Rightarrow> 'w
      \<Rightarrow> (packetWritten list \<times> (error + progress)) \<times> 'w"
  objectWriter_setPrn :: "nat \<Rightarrow> 'w \<Rightarrow> (error + unit) \<times> 'w"
  objectWriter_setMtuSize :: "nat \<Rightarrow> 'w \<Rightarrow> (error + unit) \<times> 'w"
  new_InitPacketState :: "byte list \<Rightarrow> selectResponse \<Rightarrow> error + initPacketState"
  new_FirmwareState :: "byte list \<Rightarrow> selectResponse \<Rightarrow> error + firmwareState"

text \<open>
  What the transport does to the outside, in order: every call of a collaborator and
  every \<^verbatim>\<open>progressUpdate\<close> event it emits. (The \<^verbatim>\<open>logMessage\<close>
  events of \<^verbatim>\<open>_debug\<close> are left out: they carry text only and decide
  nothing.)
\<close>

datatype action =
    Connect addressParams connectOptions
  | GetCharacteristicId string string string
  | NewControlPointService string
  | NewDfuObjectWriter string string
  | StartCharacteristicsNotifications string bool
  | UpdateConnectionParameters string connParams
  | SelectObject nat
  | CreateObject nat nat
  | SetPRN nat
  | CalculateChecksum
  | Execute
  | WriteObject "byte list" nat "nat option" "nat option"
  | WriterSetPrn nat
  | WriterSetMtuSize nat
  | ProgressUpdate event

text \<open>
  The state of one \<^verbatim>\<open>DfuTransport\<close>: its parameters, the
  \<^verbatim>\<open>_isInitialized\<close> flag (false after the constructor), the outside state
  and the trace of actions so far. The service objects that \<^verbatim>\<open>init\<close> creates
  belong to the outside state. The constructor, \<^verbatim>\<open>destroy\<close> and
  \<^verbatim>\<open>abort\<close> are not modelled.
\<close>

record 'w transport =
  params :: transportParameters
  isInitialized :: bool
  world :: 'w
  trace :: "action list"

text \<open>
  A promise is run on a state and settles with a value or an error, leaving a state.
  \<^verbatim>\<open>p.then(f)\<close> runs \<open>f\<close> on the value of \<open>p\<close>; a rejection (also an
  exception thrown inside a callback) skips it.
\<close>

type_synonym ('w, 'a) promise = "'w transport \<Rightarrow> (error + 'a) \<times> 'w transport"

definition resolve :: "'a \<Rightarrow> ('w, 'a) promise" where
  "resolve x s = (Inr x, s)"

definition reject :: "error \<Rightarrow> ('w, 'a) promise" where
  "reject e s = (Inl e, s)"

definition andThen :: "('w, 'a) promise \<Rightarrow> ('a \<Rightarrow> ('w, 'b) promise) \<Rightarrow> ('w, 'b) promise" where
  "andThen p f s = (case p s of (Inl e, s') \<Rightarrow> (Inl e, s') | (Inr x, s') \<Rightarrow> f x s')"

definition record_action :: "action \<Rightarrow> 'w transport \<Rightarrow> 'w transport" where
  "record_action a s = s\<lparr>trace := trace s @ [a]\<rparr>"

text \<open>A call of a collaborator: the action is recorded, then the outside state moves.\<close>

definition call :: "action \<Rightarrow> ('w \<Rightarrow> (error + 'a) \<times> 'w) \<Rightarrow> ('w, 'a) promise" where
  "call a f s = (case f (world s) of (r, w') \<Rightarrow> (r, (record_action a s)\<lparr>world := w'\<rparr>))"


section \<open>dfuTransport.js: the object transfer\<close>

definition getObjectTypeString :: "nat \<Rightarrow> string" where
  "getObjectTypeString type =
     (if type = ObjectType_COMMAND then ''init packet''
      else if type = ObjectType_DATA then ''firmware''
      else ''unknown object'')"

definition emit_progressUpdate :: "event \<Rightarrow> 'w transport \<Rightarrow> 'w transport" where
  "emit_progressUpdate ev s = record_action (ProgressUpdate ev) s"

definition emitTransferEvent :: "nat \<Rightarrow> nat \<Rightarrow> 'w transport \<Rightarrow> 'w transport" where
  "emitTransferEvent offset' type s =
     (let ev = \<lparr>stage = ''Transferring '' @ getObjectTypeString type, event_offset = None\<rparr>;
          ev = (if type = ObjectType_DATA then ev\<lparr>event_offset := Some offset'\<rparr> else ev)
      in emit_progressUpdate ev s)"

definition emitInitializeEvent :: "nat \<Rightarrow> 'w transport \<Rightarrow> 'w transport" where
  "emitInitializeEvent type s =
     emit_progressUpdate
       \<lparr>stage = ''Initializing '' @ getObjectTypeString type, event_offset = None\<rparr> s"

definition shouldRetry :: "nat \<Rightarrow> error \<Rightarrow> bool" where
  "shouldRetry attempts err =
     (if attempts < MAX_RETRIES
         \<and> code err \<noteq> Some ErrorCode_ABORTED
         \<and> code err \<noteq> Some ErrorCode_NOTIFICATION_TIMEOUT
      then True
      else False)"

definition validateProgress :: "'w env \<Rightarrow> progress \<Rightarrow> ('w, unit) promise" where
  "validateProgress env progressInfo =
     andThen (call CalculateChecksum (controlPointService_calculateChecksum env))
       (\<lambda>response.
          if offset progressInfo \<noteq> offset response then
            reject (createError ErrorCode_INVALID_OFFSET
              (''Error when validating offset. Got '' @ string_of_nat (offset response)
                @ '', but expected '' @ string_of_nat (offset progressInfo) @ ''.''))
          else if crc32 progressInfo \<noteq> crc32 response then
            reject (createError ErrorCode_INVALID_CRC
              (''Error when validating CRC. Got '' @ string_of_nat (crc32 response)
                @ '', but expected '' @ string_of_nat (crc32 progressInfo) @ ''.''))
          else resolve ())"

text \<open>
  \<^verbatim>\<open>this._objectWriter.writeObject(...)\<close>, with the listener that
  \<^verbatim>\<open>init\<close> registers on the writer: every \<^verbatim>\<open>packetWritten\<close> of the
  write goes through \<^verbatim>\<open>_emitTransferEvent\<close>.
\<close>

definition objectWriter_write ::
    "'w env \<Rightarrow> byte list \<Rightarrow> nat \<Rightarrow> nat option \<Rightarrow> nat option \<Rightarrow> ('w, progress) promise" where
  "objectWriter_write env data type offset' crc32' s =
     (case objectWriter_writeObject env data type offset' crc32' (world s) of
        ((packets, r), w') \<Rightarrow>
          (r, fold (\<lambda>progress. emitTransferEvent (pw_offset progress) (pw_type progress)) packets
                ((record_action (WriteObject data type offset' crc32') s)\<lparr>world := w'\<rparr>)))"

text \<open>\<^verbatim>\<open>_writeObject\<close>. An absent argument (\<^verbatim>\<open>undefined\<close>) is \<open>None\<close>.\<close>

definition writeObject ::
    "'w env \<Rightarrow> byte list \<Rightarrow> nat \<Rightarrow> nat option \<Rightarrow> nat option \<Rightarrow> ('w, progress) promise" where
  "writeObject env data type offset' crc32' =
     andThen (objectWriter_write env data type offset' crc32')
       (\<lambda>progress.
          andThen
            (andThen (validateProgress env progress)
               (\<lambda>_. call Execute (controlPointService_execute env)))
            (\<lambda>_. resolve progress))"

text \<open>
  \<^verbatim>\<open>tryWrite\<close>, the closure of \<^verbatim>\<open>_createAndWriteObject\<close>; its
  variable \<^verbatim>\<open>attempts\<close> is an argument.
\<close>

function tryWrite ::
    "'w env \<Rightarrow> byte list \<Rightarrow> nat \<Rightarrow> nat option \<Rightarrow> nat option \<Rightarrow> nat \<Rightarrow> ('w, progress) promise" where
  "tryWrite env data type offset' crc32' attempts s =
     (case andThen (call (CreateObject type (length data))
                      (controlPointService_createObject env type (length data)))
             (\<lambda>_. writeObject env data type offset' crc32') s of
        (Inr progress, s') \<Rightarrow> (Inr progress, s')
      | (Inl err, s') \<Rightarrow>
          (if shouldRetry (attempts + 1) err
           then tryWrite env data type offset' crc32' (attempts + 1) s'
           else (Inl err, s')))"
  by pat_completeness auto
termination
  by (relation "measure (\<lambda>(env, data, type, offset', crc32', attempts, s). MAX_RETRIES - attempts)")
    (auto simp: shouldRetry_def split: if_splits)

declare tryWrite.simps [simp del]

definition createAndWriteObject ::
    "'w env \<Rightarrow> byte list \<Rightarrow> nat \<Rightarrow> nat option \<Rightarrow> nat option \<Rightarrow> ('w, progress) promise" where
  "createAndWriteObject env data type offset' crc32' = tryWrite env data type offset' crc32' 0"

definition createAndWriteObjects ::
    "'w env \<Rightarrow> byte list list \<Rightarrow> nat \<Rightarrow> nat \<Rightarrow> nat \<Rightarrow> ('w, progress) promise" where
  "createAndWriteObjects env objects type offset' crc32' =
     foldl
       (\<lambda>prevPromise object.
          andThen prevPromise
            (\<lambda>progress. createAndWriteObject env object type
               (Some (offset progress)) (Some (crc32 progress))))
       (resolve \<lparr>offset = offset', crc32 = crc32'\<rparr>)
       objects"


section \<open>dfuTransport.js: connection and initialization\<close>

text \<open>
  \<^verbatim>\<open>_getConnectedDevice\<close>. \<^verbatim>\<open>find\<close> takes the first key whose
  device has the address; a key is truthy when it is not the empty string.
\<close>

definition getConnectedDevice :: "'w env \<Rightarrow> string \<Rightarrow> 'w \<Rightarrow> device option" where
  "getConnectedDevice env targetAddress' w =
     (let devices = adapter_getDevices env w in
      case find (\<lambda>(deviceId, dev). address dev = targetAddress') devices of
        None \<Rightarrow> None
      | Some (deviceId, dev) \<Rightarrow>
          if deviceId \<noteq> [] \<and> connected dev then Some dev else None)"

definition connect :: "'w env \<Rightarrow> string \<Rightarrow> string \<Rightarrow> ('w, device) promise" where
  "connect env targetAddress' targetAddressType' =
     (let options = \<lparr>opt_scanParams = DEFAULT_SCAN_PARAMS,
                      opt_connParams = DEFAULT_CONNECTION_PARAMS\<rparr>;
          addressParams = \<lparr>ap_address = targetAddress', ap_type = targetAddressType'\<rparr>
      in call (Connect addressParams options) (adapter_connect env addressParams options))"

definition connectIfNeeded :: "'w env \<Rightarrow> string \<Rightarrow> string \<Rightarrow> ('w, device) promise" where
  "connectIfNeeded env targetAddress' targetAddressType' s =
     (case getConnectedDevice env targetAddress' (world s) of
        Some dev \<Rightarrow> resolve dev s
      | None \<Rightarrow> connect env targetAddress' targetAddressType' s)"

record characteristicIds =
  controlPointId :: string
  packetId :: string

definition getCharacteristicIds :: "'w env \<Rightarrow> device \<Rightarrow> ('w, characteristicIds) promise" where
  "getCharacteristicIds env dev =
     andThen
       (call (GetCharacteristicId (instanceId dev) DFU_SERVICE_UUID DFU_CONTROL_POINT_UUID)
          (deviceInfoService_getCharacteristicId env (instanceId dev)
             DFU_SERVICE_UUID DFU_CONTROL_POINT_UUID))
       (\<lambda>controlPointCharacteristicId.
          andThen
            (call (GetCharacteristicId (instanceId dev) DFU_SERVICE_UUID DFU_PACKET_UUID)
               (deviceInfoService_getCharacteristicId env (instanceId dev)
                  DFU_SERVICE_UUID DFU_PACKET_UUID))
            (\<lambda>packetCharacteristicId.
               resolve \<lparr>controlPointId = controlPointCharacteristicId,
                        packetId = packetCharacteristicId\<rparr>))"

definition startCharacteristicsNotifications :: "'w env \<Rightarrow> string \<Rightarrow> ('w, unit) promise" where
  "startCharacteristicsNotifications env characteristicId s =
     (let ack = False in
      case adapter_startCharacteristicsNotifications env characteristicId ack (world s) of
        (err, w') \<Rightarrow>
          (let s' = (record_action (StartCharacteristicsNotifications characteristicId ack) s)
                      \<lparr>world := w'\<rparr>
           in case err of
                Some e \<Rightarrow> reject (createError ErrorCode_NOTIFICATION_START_ERROR (message e)) s'
              | None \<Rightarrow> resolve () s'))"

definition setMtuSize :: "'w env \<Rightarrow> nat \<Rightarrow> ('w, unit) promise" where
  "setMtuSize env mtuSize' = call (WriterSetMtuSize mtuSize') (objectWriter_setMtuSize env mtuSize')"

text \<open>
  The part of \<^verbatim>\<open>init\<close> from \<^verbatim>\<open>_connectIfNeeded\<close> to
  \<^verbatim>\<open>_startCharacteristicsNotifications\<close>: the first three links of its chain.
\<close>

definition init_connect :: "'w env \<Rightarrow> string \<Rightarrow> string \<Rightarrow> ('w, unit) promise" where
  "init_connect env targetAddress' targetAddressType' =
     andThen
       (andThen (connectIfNeeded env targetAddress' targetAddressType')
          (\<lambda>dev. getCharacteristicIds env dev))
       (\<lambda>characteristicIds.
          let controlPointId' = controlPointId characteristicIds;
              packetId' = packetId characteristicIds
          in andThen
               (call (NewControlPointService controlPointId')
                  (\<lambda>w. (Inr (), new_ControlPointService env controlPointId' w)))
               (\<lambda>_. andThen
                  (call (NewDfuObjectWriter controlPointId' packetId')
                     (\<lambda>w. (Inr (), new_DfuObjectWriter env controlPointId' packetId' w)))
                  (\<lambda>_. startCharacteristicsNotifications env controlPointId')))"

text \<open>
  A promise that may never settle: \<open>None\<close> is a chain that is still running when the
  fuel is used up.
\<close>

type_synonym ('w, 'a) run = "'w transport \<Rightarrow> ((error + 'a) \<times> 'w transport) option"

definition andThen_run :: "('w, 'a) run \<Rightarrow> ('a \<Rightarrow> ('w, 'b) promise) \<Rightarrow> ('w, 'b) run" where
  "andThen_run p f s =
     (case p s of
        None \<Rightarrow> None
      | Some (Inl e, s') \<Rightarrow> Some (Inl e, s')
      | Some (Inr x, s') \<Rightarrow> Some (f x s'))"

text \<open>
  \<^verbatim>\<open>init\<close> and \<^verbatim>\<open>_setPrn\<close>. \<^verbatim>\<open>_setPrn\<close> starts with
  \<^verbatim>\<open>this.init()\<close>, and \<^verbatim>\<open>init\<close> sets \<^verbatim>\<open>_isInitialized\<close>
  in its last link only, so the two call each other; each call of \<^verbatim>\<open>init\<close>
  takes one unit of fuel. A number is truthy when it is not zero, and
  \<^verbatim>\<open>undefined\<close> (\<open>None\<close>) is not. \<^verbatim>\<open>init\<close> resolves with
  \<^verbatim>\<open>undefined\<close> (\<open>None\<close>) when it was initialized already, and with the value
  of the assignment, \<^verbatim>\<open>true\<close>, otherwise.
\<close>

fun init :: "nat \<Rightarrow> 'w env \<Rightarrow> ('w, bool option) run"
  and setPrn :: "nat \<Rightarrow> 'w env \<Rightarrow> nat \<Rightarrow> ('w, unit) run" where
  "init 0 env s = None"
| "init (Suc fuel) env s =
     (if isInitialized s then Some (resolve None s)
      else
        (case init_connect env (targetAddress (params s)) (targetAddressType (params s)) s of
           (Inl e, s1) \<Rightarrow> Some (Inl e, s1)
         | (Inr _, s1) \<Rightarrow>
             (case (case prnValue (params s) of
                      None \<Rightarrow> Some (resolve () s1)
                    | Some prn \<Rightarrow> if prn \<noteq> 0 then setPrn fuel env prn s1
                                  else Some (resolve () s1)) of
                None \<Rightarrow> None
              | Some (Inl e, s2) \<Rightarrow> Some (Inl e, s2)
              | Some (Inr _, s2) \<Rightarrow>
                  (case (case mtuSize (params s) of
                           None \<Rightarrow> resolve () s2
                         | Some mtu \<Rightarrow> if mtu \<noteq> 0 then setMtuSize env mtu s2
                                       else resolve () s2) of
                     (Inl e, s3) \<Rightarrow> Some (Inl e, s3)
                   | (Inr _, s3) \<Rightarrow> Some (resolve (Some True) (s3\<lparr>isInitialized := True\<rparr>))))))"
| "setPrn fuel env prn s =
     (case init fuel env s of
        None \<Rightarrow> None
      | Some (Inl e, s1) \<Rightarrow> Some (Inl e, s1)
      | Some (Inr _, s1) \<Rightarrow>
          Some (andThen (call (SetPRN prn) (controlPointService_setPRN env prn))
                  (\<lambda>_. call (WriterSetPrn prn) (objectWriter_setPrn env prn)) s1))"

section \<open>dfuTransport.js: the public transfers\<close>

definition getInitPacketState :: "nat \<Rightarrow> 'w env \<Rightarrow> byte list \<Rightarrow> ('w, initPacketState) run" where
  "getInitPacketState fuel env data =
     andThen_run
       (andThen_run (init fuel env)
          (\<lambda>_. call (SelectObject ObjectType_COMMAND)
                  (controlPointService_selectObject env ObjectType_COMMAND)))
       (\<lambda>response. case new_InitPacketState env data response of
                      Inl e \<Rightarrow> reject e
                    | Inr state \<Rightarrow> resolve state)"

definition getFirmwareState :: "nat \<Rightarrow> 'w env \<Rightarrow> byte list \<Rightarrow> ('w, firmwareState) run" where
  "getFirmwareState fuel env data =
     andThen_run
       (andThen_run (init fuel env)
          (\<lambda>_. call (SelectObject ObjectType_DATA)
                  (controlPointService_selectObject env ObjectType_DATA)))
       (\<lambda>response. case new_FirmwareState env data response of
                      Inl e \<Rightarrow> reject e
                    | Inr state \<Rightarrow> resolve state)"

definition sendInitPacket :: "nat \<Rightarrow> 'w env \<Rightarrow> byte list \<Rightarrow> ('w, progress) run" where
  "sendInitPacket fuel env data s =
     andThen_run (getInitPacketState fuel env data)
       (\<lambda>state.
          if isResumable state then
            writeObject env (remainingData state) ObjectType_COMMAND
              (Some (offset state)) (Some (crc32 state))
          else createAndWriteObject env (remainingData state) ObjectType_COMMAND None None)
       (emitInitializeEvent ObjectType_COMMAND s)"

definition sendFirmware :: "nat \<Rightarrow> 'w env \<Rightarrow> byte list \<Rightarrow> ('w, progress) run" where
  "sendFirmware fuel env data s =
     andThen_run (getFirmwareState fuel env data)
       (\<lambda>state.
          let offset' = offset state;
              crc32' = crc32 state;
              objects = remainingObjects state
          in if isResumable state then
               (let partialObject = remainingPartialObject state
                in andThen (writeObject env partialObject ObjectType_DATA (Some offset') (Some crc32'))
                     (\<lambda>progress. createAndWriteObjects env objects ObjectType_DATA
                        (offset progress) (crc32 progress)))
             else createAndWriteObjects env objects ObjectType_DATA offset' crc32')
       (emitInitializeEvent ObjectType_DATA s)"

section \<open>dfuTransport.js: disconnection and connection parameters\<close>

text \<open>
  \<^verbatim>\<open>waitForDisconnection\<close> returns a promise that settles on a later event.
  Its state: whether the promise has settled, the delay (in ms) of the pending timer if
  one is pending, and the \<^verbatim>\<open>instanceId\<close> the registered
  \<^verbatim>\<open>deviceDisconnected\<close> listener compares with if one is registered. A
  promise settles once.
\<close>

datatype settlement = Pending | Resolved | Rejected error

record disconnectionWait =
  settled :: settlement
  pendingTimeout :: "nat option"
  disconnectionListener :: "string option"

definition settle :: "settlement \<Rightarrow> disconnectionWait \<Rightarrow> disconnectionWait" where
  "settle r wt = (if settled wt = Pending then wt\<lparr>settled := r\<rparr> else wt)"

definition waitForDisconnection :: "'w env \<Rightarrow> 'w transport \<Rightarrow> disconnectionWait" where
  "waitForDisconnection env s =
     (case getConnectedDevice env (targetAddress (params s)) (world s) of
        None \<Rightarrow> \<lparr>settled = Resolved, pendingTimeout = None, disconnectionListener = None\<rparr>
      | Some connectedDevice \<Rightarrow>
          \<lparr>settled = Pending, pendingTimeout = Some TIMEOUT_MS,
           disconnectionListener = Some (instanceId connectedDevice)\<rparr>)"

text \<open>
  The adapter emits \<^verbatim>\<open>deviceDisconnected\<close>: \<^verbatim>\<open>disconnectionHandler\<close>
  runs if it is still registered.
\<close>

definition disconnectionHandler :: "device \<Rightarrow> disconnectionWait \<Rightarrow> disconnectionWait" where
  "disconnectionHandler dev wt =
     (case disconnectionListener wt of
        None \<Rightarrow> wt
      | Some connectedInstanceId \<Rightarrow>
          if instanceId dev = connectedInstanceId then
            settle Resolved (wt\<lparr>pendingTimeout := None, disconnectionListener := None\<rparr>)
          else wt)"

text \<open>The delay has passed: the callback of \<^verbatim>\<open>setTimeout\<close> runs if the timer is pending.\<close>

definition timeoutElapsed :: "disconnectionWait \<Rightarrow> disconnectionWait" where
  "timeoutElapsed wt =
     (case pendingTimeout wt of
        None \<Rightarrow> wt
      | Some _ \<Rightarrow>
          settle
            (Rejected (createError ErrorCode_DISCONNECTION_TIMEOUT
               ''Timed out when waiting for target device to disconnect.''))
            (wt\<lparr>pendingTimeout := None, disconnectionListener := None\<rparr>))"

datatype waitEvent = DeviceDisconnected device | TimeoutElapsed

fun waitStep :: "disconnectionWait \<Rightarrow> waitEvent \<Rightarrow> disconnectionWait" where
  "waitStep wt (DeviceDisconnected dev) = disconnectionHandler dev wt"
| "waitStep wt TimeoutElapsed = timeoutElapsed wt"

text \<open>
  \<^verbatim>\<open>_handleConnParamUpdateRequest\<close>, the listener of the adapter's
  \<^verbatim>\<open>connParamUpdateRequest\<close>. The first component is the error its callback
  throws (into the adapter, which called the callback), if it throws.
\<close>

definition handleConnParamUpdateRequest ::
    "'w env \<Rightarrow> device \<Rightarrow> connParams \<Rightarrow> 'w transport \<Rightarrow> error option \<times> 'w transport" where
  "handleConnParamUpdateRequest env dev connectionParameters s =
     (case getConnectedDevice env (targetAddress (params s)) (world s) of
        None \<Rightarrow> (None, s)
      | Some connectedDevice \<Rightarrow>
          if instanceId connectedDevice = instanceId dev then
            (case adapter_updateConnectionParameters env (instanceId dev) connectionParameters
                    (world s) of
               (err, w') \<Rightarrow>
                 ((case err of
                     Some e \<Rightarrow> Some (createError ErrorCode_CONNECTION_PARAM_ERROR (message e))
                   | None \<Rightarrow> None),
                  (record_action (UpdateConnectionParameters (instanceId dev) connectionParameters) s)
                    \<lparr>world := w'\<rparr>))
          else (None, s))"


section \<open>Notions used in the statements\<close>

text \<open>The actions a run from \<open>s\<close> to \<open>s'\<close> added to the trace.\<close>

definition actionsSince :: "'w transport \<Rightarrow> 'w transport \<Rightarrow> action list" where
  "actionsSince s s' = drop (length (trace s)) (trace s')"

fun isCreateObject :: "action \<Rightarrow> bool" where
  "isCreateObject (CreateObject type n) = True"
| "isCreateObject a = False"

fun isWriteObject :: "action \<Rightarrow> bool" where
  "isWriteObject (WriteObject data type offset' crc32') = True"
| "isWriteObject a = False"

text \<open>
  The action that the \<^verbatim>\<open>packetWritten\<close> listener of \<^verbatim>\<open>init\<close> makes
  of one written packet, through \<^verbatim>\<open>_emitTransferEvent\<close>
  (lemma \<open>emitTransferEvent_packet\<close>).
\<close>

definition transferEvent :: "packetWritten \<Rightarrow> action" where
  "transferEvent pk =
     ProgressUpdate
       \<lparr>stage = ''Transferring '' @ getObjectTypeString (pw_type pk),
        event_offset = (if pw_type pk = ObjectType_DATA then Some (pw_offset pk) else None)\<rparr>"

text \<open>
  One run of the chain that \<^verbatim>\<open>tryWrite\<close> builds before its
  \<^verbatim>\<open>catch\<close>: \<^verbatim>\<open>createObject\<close>, then \<^verbatim>\<open>_writeObject\<close>
  (lemma \<open>tryWrite_unfold\<close>).
\<close>

definition objectTransfer ::
    "'w env \<Rightarrow> byte list \<Rightarrow> nat \<Rightarrow> nat option \<Rightarrow> nat option \<Rightarrow> ('w, progress) promise" where
  "objectTransfer env data type offset' crc32' =
     andThen (call (CreateObject type (length data))
                (controlPointService_createObject env type (length data)))
       (\<lambda>_. writeObject env data type offset' crc32')"

text \<open>The errors that \<^verbatim>\<open>_shouldRetry\<close> never retries.\<close>

definition terminalError :: "error \<Rightarrow> bool" where
  "terminalError err =
     (code err = Some ErrorCode_ABORTED \<or> code err = Some ErrorCode_NOTIFICATION_TIMEOUT)"

section \<open>A stub of the collaborators\<close>

text \<open>
  A test double for concrete runs. Its state counts the \<^verbatim>\<open>createObject\<close>
  calls so far and keeps the progress the writer reached last. The first \<open>failures\<close>
  calls of \<^verbatim>\<open>createObject\<close> reject with \<open>err\<close>. The writer emits one
  \<^verbatim>\<open>packetWritten\<close> for the whole object and resolves with the offset after it.
  \<^verbatim>\<open>calculateChecksum\<close> answers \<open>report\<close> of the progress reached
  (\<open>\<lambda>p. p\<close> is a device that agrees with the writer). The device table, the response
  of \<^verbatim>\<open>selectObject\<close> and the error of
  \<^verbatim>\<open>updateConnectionParameters\<close> are fixed. The state constructors resume
  at any offset above zero and cut the data into at most two objects (they are not
  those of \<^verbatim>\<open>dfuModels\<close>).
\<close>

record stubWorld =
  creates :: nat
  reached :: progress

definition stubEnv ::
    "(string \<times> device) list \<Rightarrow> nat \<Rightarrow> error \<Rightarrow> selectResponse \<Rightarrow> (progress \<Rightarrow> progress)
      \<Rightarrow> error option \<Rightarrow> stubWorld env" where
  "stubEnv devices failures err selected report connErr =
     \<lparr>adapter_getDevices = (\<lambda>w. devices),
      adapter_connect = (\<lambda>ap opts w.
        (Inr \<lparr>address = ap_address ap, instanceId = ''dev1'', connected = True\<rparr>, w)),
      adapter_startCharacteristicsNotifications = (\<lambda>characteristicId ack w. (None, w)),
      adapter_updateConnectionParameters = (\<lambda>inst cp w. (connErr, w)),
      deviceInfoService_getCharacteristicId = (\<lambda>inst service uuid w. (Inr uuid, w)),
      new_ControlPointService = (\<lambda>cp w. w),
      new_DfuObjectWriter = (\<lambda>cp pk w. w),
      controlPointService_selectObject = (\<lambda>type w. (Inr selected, w)),
      controlPointService_createObject = (\<lambda>type n w.
        (if creates w < failures then Inl err else Inr (), w\<lparr>creates := Suc (creates w)\<rparr>)),
      controlPointService_setPRN = (\<lambda>prn w. (Inr (), w)),
      controlPointService_calculateChecksum = (\<lambda>w. (Inr (report (reached w)), w)),
      controlPointService_execute = (\<lambda>w. (Inr (), w)),
      objectWriter_writeObject = (\<lambda>data type offset' crc32' w.
        (let p = \<lparr>offset = (case offset' of None \<Rightarrow> 0 | Some n \<Rightarrow> n) + length data,
                  crc32 = (case crc32' of None \<Rightarrow> 0 | Some c \<Rightarrow> c) + 7 * length data\<rparr>
         in (([\<lparr>pw_offset = offset p, pw_type = type\<rparr>], Inr p), w\<lparr>reached := p\<rparr>))),
      objectWriter_setPrn = (\<lambda>prn w. (Inr (), w)),
      objectWriter_setMtuSize = (\<lambda>mtu w. (Inr (), w)),
      new_InitPacketState = (\<lambda>data response.
        Inr \<lparr>offset = offset response, crc32 = crc32 response,
             isResumable = (0 < offset response),
             remainingData = drop (offset response) data\<rparr>),
      new_FirmwareState = (\<lambda>data response.
        Inr \<lparr>offset = offset response, crc32 = crc32 response,
             isResumable = (0 < offset response),
             remainingPartialObject =
               drop (offset response) (take (maximumSize response) data),
             remainingObjects =
               (if offset response = 0 then [take (maximumSize response) data] else [])
               @ (if maximumSize response < length data
                  then [drop (maximumSize response) data] else [])\<rparr>)\<rparr>"

definition stubDevices :: "(string \<times> device) list" where
  "stubDevices =
     [(''other.0'', \<lparr>address = ''AA:AA'', instanceId = ''other.0'', connected = True\<rparr>),
      (''target.1'', \<lparr>address = ''BB:BB'', instanceId = ''target.1'', connected = True\<rparr>)]"

definition stubParams :: transportParameters where
  "stubParams =
     \<lparr>targetAddress = ''BB:BB'', targetAddressType = ''BLE_GAP_ADDR_TYPE_RANDOM_STATIC'',
      prnValue = None, mtuSize = Some 23\<rparr>"

definition stubTransport :: "stubWorld transport" where
  "stubTransport =
     \<lparr>params = stubParams, isInitialized = False,
      world = \<lparr>creates = 0, reached = \<lparr>offset = 0, crc32 = 0\<rparr>\<rparr>, trace = []\<rparr>"

definition commandError :: error where
  "commandError = createError ErrorCode_COMMAND_ERROR ''Operation code 1 failed''"

definition fresh :: selectResponse where
  "fresh = \<lparr>offset = 0, crc32 = 0, maximumSize = 4\<rparr>"

definition partly :: selectResponse where
  "partly = \<lparr>offset = 2, crc32 = 14, maximumSize = 4\<rparr>"

definition firmware6 :: "byte list" where
  "firmware6 = [1, 2, 3, 4, 5, 6]"

text \<open>The stub's transport after \<^verbatim>\<open>init\<close> has resolved on it.\<close>

definition initializedStub :: "stubWorld transport" where
  "initializedStub =
     \<lparr>params = stubParams, isInitialized = True,
      world = \<lparr>creates = 0, reached = \<lparr>offset = 0, crc32 = 0\<rparr>\<rparr>,
      trace =
        [GetCharacteristicId ''target.1'' ''FE59'' ''8EC90001F3154F609FB8838830DAEA50'',
         GetCharacteristicId ''target.1'' ''FE59'' ''8EC90002F3154F609FB8838830DAEA50'',
         NewControlPointService ''8EC90001F3154F609FB8838830DAEA50'',
         NewDfuObjectWriter ''8EC90001F3154F609FB8838830DAEA50''
           ''8EC90002F3154F609FB8838830DAEA50'',
         StartCharacteristicsNotifications ''8EC90001F3154F609FB8838830DAEA50'' False,
         WriterSetMtuSize 23]\<rparr>"


text \<open>
  And after a transfer of the given type has emitted its first event, initialized
  and called \<^verbatim>\<open>selectObject\<close>.
\<close>

definition selectedStub :: "nat \<Rightarrow> stubWorld transport" where
  "selectedStub type =
     initializedStub
       \<lparr>trace :=
          ProgressUpdate \<lparr>stage = ''Initializing '' @ getObjectTypeString type,
                          event_offset = None\<rparr>
            # trace initializedStub @ [SelectObject type]\<rparr>"

text \<open>The error of the timer callback of \<^verbatim>\<open>waitForDisconnection\<close>.\<close>

definition timedOut :: error where
  "timedOut = createError ErrorCode_DISCONNECTION_TIMEOUT
     ''Timed out when waiting for target device to disconnect.''"

text \<open>The two devices of the stub's table.\<close>

definition targetDevice :: device where
  "targetDevice = \<lparr>address = ''BB:BB'', instanceId = ''target.1'', connected = True\<rparr>"

definition otherDevice :: device where
  "otherDevice = \<lparr>address = ''AA:AA'', instanceId = ''other.0'', connected = True\<rparr>"

text \<open>
  A device table in which an entry of the target address that is not connected stands
  before the connected target.
\<close>

definition staleDevices :: "(string \<times> device) list" where
  "staleDevices =
     [(''stale.0'', \<lparr>address = ''BB:BB'', instanceId = ''stale.0'', connected = False\<rparr>),
      (''target.1'', targetDevice)]"

section \<open>Properties\<close>

lemma ObjectType_reads:
  "readProp ObjectType ''COMMAND'' = Some ObjectType_COMMAND"
  "readProp ObjectType ''DATA'' = Some ObjectType_DATA"
  by (simp_all add: readProp_def ObjectType_def ObjectType_COMMAND_def ObjectType_DATA_def)

lemma ErrorCode_reads:
  "readProp ErrorCode ''ABORTED'' = Some ErrorCode_ABORTED"
  "readProp ErrorCode ''NOTIFICATION_TIMEOUT'' = Some ErrorCode_NOTIFICATION_TIMEOUT"
  "readProp ErrorCode ''INVALID_CRC'' = Some ErrorCode_INVALID_CRC"
  "readProp ErrorCode ''INVALID_OFFSET'' = Some ErrorCode_INVALID_OFFSET"
  "readProp ErrorCode ''COMMAND_ERROR'' = Some ErrorCode_COMMAND_ERROR"
  "readProp ErrorCode ''NOTIFICATION_START_ERROR'' = Some ErrorCode_NOTIFICATION_START_ERROR"
  "readProp ErrorCode ''DISCONNECTION_TIMEOUT'' = Some ErrorCode_DISCONNECTION_TIMEOUT"
  "readProp ErrorCode ''CONNECTION_PARAM_ERROR'' = Some ErrorCode_CONNECTION_PARAM_ERROR"
  by (simp_all add: readProp_def ErrorCode_def ErrorCode_ABORTED_def
      ErrorCode_NOTIFICATION_TIMEOUT_def ErrorCode_INVALID_CRC_def
      ErrorCode_INVALID_OFFSET_def ErrorCode_COMMAND_ERROR_def
      ErrorCode_NOTIFICATION_START_ERROR_def ErrorCode_DISCONNECTION_TIMEOUT_def
      ErrorCode_CONNECTION_PARAM_ERROR_def)

subsection \<open>Calls, events and one object write\<close>

lemma emitTransferEvent_trace:
  "emitTransferEvent offset' type s =
     s\<lparr>trace := trace s @ [ProgressUpdate \<lparr>stage = ''Transferring '' @ getObjectTypeString type,
         event_offset = (if type = ObjectType_DATA then Some offset' else None)\<rparr>]\<rparr>"
  by (simp add: emitTransferEvent_def emit_progressUpdate_def record_action_def Let_def)

lemma fold_emitTransferEvent:
  "fold (\<lambda>progress. emitTransferEvent (pw_offset progress) (pw_type progress)) packets s =
     s\<lparr>trace := trace s @ map transferEvent packets\<rparr>"
proof (induction packets arbitrary: s)
  case Nil
  show ?case by simp
next
  case (Cons pk packets)
  have "emitTransferEvent (pw_offset pk) (pw_type pk) s = s\<lparr>trace := trace s @ [transferEvent pk]\<rparr>"
    by (simp add: emitTransferEvent_trace transferEvent_def)
  then show ?case
    by (simp add: Cons.IH)
qed

lemma objectWriter_write_eq:
  "objectWriter_writeObject env data type offset' crc32' (world s) = ((packets, r), w') \<Longrightarrow>
   objectWriter_write env data type offset' crc32' s =
     (r, s\<lparr>world := w',
           trace := trace s @ WriteObject data type offset' crc32' # map transferEvent packets\<rparr>)"
  by (simp add: objectWriter_write_def fold_emitTransferEvent record_action_def)

lemma call_eq:
  "call a f s = (case f (world s) of (r, w') \<Rightarrow> (r, s\<lparr>world := w', trace := trace s @ [a]\<rparr>))"
  by (simp add: call_def record_action_def split: prod.split)

lemma validateProgress_eq:
  assumes "controlPointService_calculateChecksum env (world s) = (rc, w')"
  shows "validateProgress env progressInfo s =
     ((case rc of
         Inl e \<Rightarrow> Inl e
       | Inr response \<Rightarrow>
          if offset progressInfo \<noteq> offset response then
            Inl (createError ErrorCode_INVALID_OFFSET
              (''Error when validating offset. Got '' @ string_of_nat (offset response)
                @ '', but expected '' @ string_of_nat (offset progressInfo) @ ''.''))
          else if crc32 progressInfo \<noteq> crc32 response then
            Inl (createError ErrorCode_INVALID_CRC
              (''Error when validating CRC. Got '' @ string_of_nat (crc32 response)
                @ '', but expected '' @ string_of_nat (crc32 progressInfo) @ ''.''))
          else Inr ()),
      s\<lparr>world := w', trace := trace s @ [CalculateChecksum]\<rparr>)"
  using assms
  by (cases rc) (simp_all add: validateProgress_def andThen_def call_eq reject_def resolve_def)

text \<open>The shapes of a run of \<^verbatim>\<open>_writeObject\<close>.\<close>

lemma writeObject_writer_rejects:
  assumes "objectWriter_writeObject env data type offset' crc32' (world s) = ((packets, Inl e), w1)"
  shows "writeObject env data type offset' crc32' s =
     (Inl e, s\<lparr>world := w1,
                trace := trace s @ WriteObject data type offset' crc32' # map transferEvent packets\<rparr>)"
  by (simp add: writeObject_def andThen_def objectWriter_write_eq [OF assms])

lemma writeObject_checked:
  assumes w: "objectWriter_writeObject env data type offset' crc32' (world s) = ((packets, Inr p), w1)"
    and c: "controlPointService_calculateChecksum env w1 = (rc, w2)"
    and x: "controlPointService_execute env w2 = (rx, w3)"
  shows "writeObject env data type offset' crc32' s =
     (case rc of
        Inl e \<Rightarrow> (Inl e, s\<lparr>world := w2, trace := trace s @ WriteObject data type offset' crc32' # map transferEvent packets @ [CalculateChecksum]\<rparr>)
      | Inr response \<Rightarrow>
          if offset p \<noteq> offset response then
            (Inl (createError ErrorCode_INVALID_OFFSET
              (''Error when validating offset. Got '' @ string_of_nat (offset response)
                @ '', but expected '' @ string_of_nat (offset p) @ ''.'')),
             s\<lparr>world := w2, trace := trace s @ WriteObject data type offset' crc32' # map transferEvent packets @ [CalculateChecksum]\<rparr>)
          else if crc32 p \<noteq> crc32 response then
            (Inl (createError ErrorCode_INVALID_CRC
              (''Error when validating CRC. Got '' @ string_of_nat (crc32 response)
                @ '', but expected '' @ string_of_nat (crc32 p) @ ''.'')),
             s\<lparr>world := w2, trace := trace s @ WriteObject data type offset' crc32' # map transferEvent packets @ [CalculateChecksum]\<rparr>)
          else
            ((case rx of Inl e \<Rightarrow> Inl e | Inr _ \<Rightarrow> Inr p),
             s\<lparr>world := w3, trace := trace s @ WriteObject data type offset' crc32' # map transferEvent packets @ [CalculateChecksum, Execute]\<rparr>))"
proof -
  let ?s1 = "s\<lparr>world := w1, trace := trace s @ WriteObject data type offset' crc32' # map transferEvent packets\<rparr>"
  have c': "controlPointService_calculateChecksum env (world ?s1) = (rc, w2)"
    using c by simp
  show ?thesis
    unfolding writeObject_def andThen_def objectWriter_write_eq [OF w]
    by (simp add: validateProgress_eq [OF c'] call_eq x resolve_def
        split: sum.split)
qed


lemma transferEvent_kinds:
  "Execute \<notin> set (map transferEvent packets)"
  "CalculateChecksum \<notin> set (map transferEvent packets)"
  "\<forall>a \<in> set (map transferEvent packets). \<not> isCreateObject a \<and> \<not> isWriteObject a"
  by (auto simp: transferEvent_def)

lemma writeObject_cases:
  obtains (rejected) packets e w1 where
      "objectWriter_writeObject env data type offset' crc32' (world s) = ((packets, Inl e), w1)"
  | (written) packets p w1 rc w2 rx w3 where
      "objectWriter_writeObject env data type offset' crc32' (world s) = ((packets, Inr p), w1)"
      "controlPointService_calculateChecksum env w1 = (rc, w2)"
      "controlPointService_execute env w2 = (rx, w3)"
proof -
  obtain packets rw w1 where w: "objectWriter_writeObject env data type offset' crc32' (world s) = ((packets, rw), w1)"
    by (metis surj_pair)
  obtain rc w2 where c: "controlPointService_calculateChecksum env w1 = (rc, w2)"
    by (metis surj_pair)
  obtain rx w3 where x: "controlPointService_execute env w2 = (rx, w3)"
    by (metis surj_pair)
  show thesis
  proof (cases rw)
    case (Inl e)
    with w show thesis by (auto intro: rejected)
  next
    case (Inr p)
    with w c x show thesis by (auto intro: written)
  qed
qed

lemma writeObject_actions:
  assumes w: "objectWriter_writeObject env data type offset' crc32' (world s) = ((packets, rw), w1)"
    and c: "controlPointService_calculateChecksum env w1 = (rc, w2)"
    and x: "controlPointService_execute env w2 = (rx, w3)"
  shows "trace (snd (writeObject env data type offset' crc32' s)) =
     trace s @ WriteObject data type offset' crc32' # map transferEvent packets @
       (case rw of
          Inl e \<Rightarrow> []
        | Inr p \<Rightarrow>
            CalculateChecksum #
              (case rc of
                 Inl e \<Rightarrow> []
               | Inr response \<Rightarrow>
                   if offset p = offset response \<and> crc32 p = crc32 response then [Execute] else []))"
proof (cases rw)
  case (Inl e)
  then show ?thesis
    using writeObject_writer_rejects [of env data type offset' crc32' s packets e w1] w by simp
next
  case (Inr p)
  then show ?thesis
    using writeObject_checked [of env data type offset' crc32' s packets p w1 rc w2 rx w3] w c x
    by (simp split: sum.split)
qed

lemma writeObject_result:
  assumes w: "objectWriter_writeObject env data type offset' crc32' (world s) = ((packets, rw), w1)"
    and c: "controlPointService_calculateChecksum env w1 = (rc, w2)"
    and x: "controlPointService_execute env w2 = (rx, w3)"
  shows "fst (writeObject env data type offset' crc32' s) =
     (case rw of
        Inl e \<Rightarrow> Inl e
      | Inr p \<Rightarrow>
          (case rc of
             Inl e \<Rightarrow> Inl e
           | Inr response \<Rightarrow>
               if offset p \<noteq> offset response then
                 Inl (createError ErrorCode_INVALID_OFFSET
                   (''Error when validating offset. Got '' @ string_of_nat (offset response)
                     @ '', but expected '' @ string_of_nat (offset p) @ ''.''))
               else if crc32 p \<noteq> crc32 response then
                 Inl (createError ErrorCode_INVALID_CRC
                   (''Error when validating CRC. Got '' @ string_of_nat (crc32 response)
                     @ '', but expected '' @ string_of_nat (crc32 p) @ ''.''))
               else (case rx of Inl e \<Rightarrow> Inl e | Inr u \<Rightarrow> Inr p)))"
proof (cases rw)
  case (Inl e)
  then show ?thesis
    using writeObject_writer_rejects [of env data type offset' crc32' s packets e w1] w by simp
next
  case (Inr p)
  then show ?thesis
    using writeObject_checked [of env data type offset' crc32' s packets p w1 rc w2 rx w3] w c x
    by (simp split: sum.split)
qed

subsection \<open>Retrying one object\<close>

lemma shouldRetry_eq:
  "shouldRetry attempts err = (attempts < 3 \<and> \<not> terminalError err)"
  by (simp add: shouldRetry_def terminalError_def MAX_RETRIES_def)

lemma tryWrite_unfold:
  "tryWrite env data type offset' crc32' attempts s =
     (case objectTransfer env data type offset' crc32' s of
        (Inr progress, s') \<Rightarrow> (Inr progress, s')
      | (Inl err, s') \<Rightarrow>
          if shouldRetry (attempts + 1) err
          then tryWrite env data type offset' crc32' (attempts + 1) s'
          else (Inl err, s'))"
  by (subst tryWrite.simps) (simp add: objectTransfer_def)

lemma createAndWriteObject_unrolled:
  "createAndWriteObject env data type offset' crc32' s =
     (case objectTransfer env data type offset' crc32' s of
        (Inr progress, s1) \<Rightarrow> (Inr progress, s1)
      | (Inl e1, s1) \<Rightarrow>
          if terminalError e1 then (Inl e1, s1)
          else
            (case objectTransfer env data type offset' crc32' s1 of
               (Inr progress, s2) \<Rightarrow> (Inr progress, s2)
             | (Inl e2, s2) \<Rightarrow>
                 if terminalError e2 then (Inl e2, s2)
                 else objectTransfer env data type offset' crc32' s2))"
proof -
  have third: "tryWrite env data type offset' crc32' (Suc (Suc 0)) s2 = objectTransfer env data type offset' crc32' s2" for s2
    by (subst tryWrite_unfold) (simp add: shouldRetry_eq split: prod.split sum.split)
  have second: "tryWrite env data type offset' crc32' (Suc 0) s1 =
       (case objectTransfer env data type offset' crc32' s1 of
               (Inr progress, s2) \<Rightarrow> (Inr progress, s2)
             | (Inl e2, s2) \<Rightarrow>
                 if terminalError e2 then (Inl e2, s2)
                 else objectTransfer env data type offset' crc32' s2)" for s1
    by (subst tryWrite_unfold) (simp add: shouldRetry_eq third split: prod.split sum.split)
  show ?thesis
    unfolding createAndWriteObject_def
    by (subst tryWrite_unfold) (simp add: shouldRetry_eq second split: prod.split sum.split)
qed

text \<open>What a run adds to the trace.\<close>

lemma writeObject_trace:
  "\<exists>xs. trace (snd (writeObject env data type offset' crc32' s)) =
          trace s @ WriteObject data type offset' crc32' # xs
       \<and> (\<forall>a \<in> set xs. \<not> isCreateObject a \<and> \<not> isWriteObject a)"
proof -
  obtain packets rw w1 where w: "objectWriter_writeObject env data type offset' crc32' (world s) = ((packets, rw), w1)"
    by (metis surj_pair)
  obtain rc w2 where c: "controlPointService_calculateChecksum env w1 = (rc, w2)"
    by (metis surj_pair)
  obtain rx w3 where x: "controlPointService_execute env w2 = (rx, w3)"
    by (metis surj_pair)
  show ?thesis
    unfolding writeObject_actions [OF w c x]
    using transferEvent_kinds(3) [of packets]
    by (auto split: sum.split)
qed

lemma objectTransfer_trace:
  "\<exists>xs. trace (snd (objectTransfer env data type offset' crc32' s)) =
          trace s @ CreateObject type (length data) # xs
       \<and> (\<forall>a \<in> set xs. \<not> isCreateObject a)"
proof -
  obtain r w' where cr: "controlPointService_createObject env type (length data) (world s) = (r, w')"
    by (metis surj_pair)
  let ?s1 = "s\<lparr>world := w', trace := trace s @ [CreateObject type (length data)]\<rparr>"
  show ?thesis
  proof (cases r)
    case (Inl e)
    then show ?thesis
      by (simp add: objectTransfer_def andThen_def call_eq cr)
  next
    case (Inr u)
    obtain xs where xs: "trace (snd (writeObject env data type offset' crc32' ?s1)) =
          trace ?s1 @ WriteObject data type offset' crc32' # xs"
       "\<forall>a \<in> set xs. \<not> isCreateObject a \<and> \<not> isWriteObject a"
      using writeObject_trace [of env data type offset' crc32' ?s1] by blast
    have "objectTransfer env data type offset' crc32' s = writeObject env data type offset' crc32' ?s1"
      using Inr by (simp add: objectTransfer_def andThen_def call_eq cr)
    then show ?thesis
      using xs by simp
  qed
qed

lemma createAndWriteObject_creates:
  "\<exists>xs. trace (snd (createAndWriteObject env data type offset' crc32' s)) = trace s @ xs
      \<and> 1 \<le> length (filter isCreateObject xs) \<and> length (filter isCreateObject xs) \<le> 3"
proof -
  let ?T = "objectTransfer env data type offset' crc32'"
  have one: "\<exists>xs. trace (snd (?T t)) = trace t @ xs \<and> length (filter isCreateObject xs) = 1" for t
  proof -
    obtain xs where "trace (snd (?T t)) = trace t @ CreateObject type (length data) # xs"
      "\<forall>a \<in> set xs. \<not> isCreateObject a"
      using objectTransfer_trace [of env data type offset' crc32' t] by blast
    then show ?thesis
      by (intro exI [of _ "CreateObject type (length data) # xs"]) (simp add: filter_empty_conv [THEN iffD2])
  qed
  obtain r1 s1 where t1: "?T s = (r1, s1)" by (metis surj_pair)
  obtain r2 s2 where t2: "?T s1 = (r2, s2)" by (metis surj_pair)
  obtain r3 s3 where t3: "?T s2 = (r3, s3)" by (metis surj_pair)
  obtain xs1 where x1: "trace s1 = trace s @ xs1" "length (filter isCreateObject xs1) = 1"
    using one [of s] t1 by auto
  obtain xs2 where x2: "trace s2 = trace s1 @ xs2" "length (filter isCreateObject xs2) = 1"
    using one [of s1] t2 by auto
  obtain xs3 where x3: "trace s3 = trace s2 @ xs3" "length (filter isCreateObject xs3) = 1"
    using one [of s2] t3 by auto
  have "snd (createAndWriteObject env data type offset' crc32' s) \<in> {s1, s2, s3}"
    unfolding createAndWriteObject_unrolled
    using t1 t2 t3 by (auto split: sum.split)
  then consider "snd (createAndWriteObject env data type offset' crc32' s) = s1"
    | "snd (createAndWriteObject env data type offset' crc32' s) = s2"
    | "snd (createAndWriteObject env data type offset' crc32' s) = s3"
    by blast
  then show ?thesis
  proof cases
    case 1
    then show ?thesis using x1 by (intro exI [of _ xs1]) simp
  next
    case 2
    then show ?thesis using x1 x2 by (intro exI [of _ "xs1 @ xs2"]) simp
  next
    case 3
    then show ?thesis using x1 x2 x3 by (intro exI [of _ "xs1 @ xs2 @ xs3"]) simp
  qed
qed

subsection \<open>The fold over the objects, the transfers and \<^verbatim>\<open>init\<close>\<close>

lemma andThen_assoc:
  "andThen (andThen p f) g = andThen p (\<lambda>x. andThen (f x) g)"
  by (rule ext) (simp add: andThen_def split: prod.split sum.split)

lemma andThen_resolve_left:
  "andThen (resolve x) f = f x"
  by (rule ext) (simp add: andThen_def resolve_def)

lemma andThen_resolve_right:
  "andThen p resolve = p"
  by (rule ext) (simp add: andThen_def resolve_def split: prod.split sum.split)

lemma foldl_andThen:
  "foldl (\<lambda>prevPromise object. andThen prevPromise (g object)) p objects =
     andThen p (\<lambda>x. foldl (\<lambda>prevPromise object. andThen prevPromise (g object)) (resolve x) objects)"
proof (induction objects arbitrary: p)
  case Nil
  show ?case by (simp add: andThen_resolve_right)
next
  case (Cons object objects)
  show ?case
    apply (simp only: foldl_Cons)
    apply (subst Cons.IH)
    apply (subst (2) Cons.IH)
    apply (simp add: andThen_assoc andThen_resolve_left)
    done
qed

lemma createAndWriteObjects_Nil:
  "createAndWriteObjects env [] type offset' crc32' s = (Inr \<lparr>offset = offset', crc32 = crc32'\<rparr>, s)"
  by (simp add: createAndWriteObjects_def resolve_def)

lemma createAndWriteObjects_Cons:
  "createAndWriteObjects env (object # objects) type offset' crc32' s =
     (case createAndWriteObject env object type (Some offset') (Some crc32') s of
        (Inl e, s') \<Rightarrow> (Inl e, s')
      | (Inr progress, s') \<Rightarrow>
          createAndWriteObjects env objects type (offset progress) (crc32 progress) s')"
proof -
  let ?g = "\<lambda>object progress. createAndWriteObject env object type
               (Some (offset progress)) (Some (crc32 progress))"
  have "createAndWriteObjects env (object # objects) type offset' crc32' =
        foldl (\<lambda>prevPromise object. andThen prevPromise (?g object))
          (andThen (resolve \<lparr>offset = offset', crc32 = crc32'\<rparr>) (?g object)) objects"
    by (simp add: createAndWriteObjects_def)
  also have "\<dots> = andThen (?g object \<lparr>offset = offset', crc32 = crc32'\<rparr>)
       (\<lambda>x. foldl (\<lambda>prevPromise object. andThen prevPromise (?g object)) (resolve x) objects)"
    by (subst foldl_andThen) (simp add: andThen_resolve_left)
  also have "\<dots> = andThen (createAndWriteObject env object type (Some offset') (Some crc32'))
       (\<lambda>x. createAndWriteObjects env objects type (offset x) (crc32 x))"
  proof -
    have eta: "\<lparr>offset = offset x, crc32 = crc32 x\<rparr> = x" for x :: progress
      by simp
    show ?thesis
      by (simp add: createAndWriteObjects_def eta)
  qed
  finally show ?thesis
    by (simp add: andThen_def)
qed

lemma sendFirmware_eq:
  assumes "getFirmwareState fuel env data (emitInitializeEvent ObjectType_DATA s) = Some (Inr state, s1)"
  shows "sendFirmware fuel env data s =
     Some (if isResumable state then
             (case writeObject env (remainingPartialObject state) ObjectType_DATA
                     (Some (offset state)) (Some (crc32 state)) s1 of
                (Inl e, s2) \<Rightarrow> (Inl e, s2)
              | (Inr progress, s2) \<Rightarrow>
                  createAndWriteObjects env (remainingObjects state) ObjectType_DATA
                    (offset progress) (crc32 progress) s2)
           else createAndWriteObjects env (remainingObjects state) ObjectType_DATA
                  (offset state) (crc32 state) s1)"
  using assms by (simp add: sendFirmware_def andThen_run_def andThen_def Let_def)

lemma sendInitPacket_eq:
  assumes "getInitPacketState fuel env data (emitInitializeEvent ObjectType_COMMAND s) = Some (Inr state, s1)"
  shows "sendInitPacket fuel env data s =
     Some (if isResumable state then
             writeObject env (remainingData state) ObjectType_COMMAND
               (Some (offset state)) (Some (crc32 state)) s1
           else createAndWriteObject env (remainingData state) ObjectType_COMMAND None None s1)"
  using assms by (simp add: sendInitPacket_def andThen_run_def)

lemma init_initialized:
  "isInitialized s \<Longrightarrow> init (Suc fuel) env s = Some (Inr None, s)"
  by (simp add: resolve_def)

lemma init_completes:
  "init fuel env s = Some (Inr v, s') \<Longrightarrow> isInitialized s'"
proof (cases fuel)
  case 0
  then show "init fuel env s = Some (Inr v, s') \<Longrightarrow> isInitialized s'" by simp
next
  case (Suc n)
  assume "init fuel env s = Some (Inr v, s')"
  then show "isInitialized s'"
    unfolding Suc
    by (auto simp: resolve_def split: if_splits prod.splits sum.splits option.splits)
qed

subsection \<open>Runs of the stub\<close>

lemma stubEnv_simps:
  "adapter_getDevices (stubEnv devices failures err selected report connErr) =
     (\<lambda>w. devices)"
  "adapter_connect (stubEnv devices failures err selected report connErr) =
     (\<lambda>ap opts w.
        (Inr \<lparr>address = ap_address ap, instanceId = ''dev1'', connected = True\<rparr>, w))"
  "adapter_startCharacteristicsNotifications (stubEnv devices failures err selected report connErr) =
     (\<lambda>characteristicId ack w. (None, w))"
  "adapter_updateConnectionParameters (stubEnv devices failures err selected report connErr) =
     (\<lambda>inst cp w. (connErr, w))"
  "deviceInfoService_getCharacteristicId (stubEnv devices failures err selected report connErr) =
     (\<lambda>inst service uuid w. (Inr uuid, w))"
  "new_ControlPointService (stubEnv devices failures err selected report connErr) =
     (\<lambda>cp w. w)"
  "new_DfuObjectWriter (stubEnv devices failures err selected report connErr) =
     (\<lambda>cp pk w. w)"
  "controlPointService_selectObject (stubEnv devices failures err selected report connErr) =
     (\<lambda>type w. (Inr selected, w))"
  "controlPointService_createObject (stubEnv devices failures err selected report connErr) =
     (\<lambda>type n w.
        (if creates w < failures then Inl err else Inr (), w\<lparr>creates := Suc (creates w)\<rparr>))"
  "controlPointService_setPRN (stubEnv devices failures err selected report connErr) =
     (\<lambda>prn w. (Inr (), w))"
  "controlPointService_calculateChecksum (stubEnv devices failures err selected report connErr) =
     (\<lambda>w. (Inr (report (reached w)), w))"
  "controlPointService_execute (stubEnv devices failures err selected report connErr) =
     (\<lambda>w. (Inr (), w))"
  "objectWriter_writeObject (stubEnv devices failures err selected report connErr) =
     (\<lambda>data type offset' crc32' w.
        (let p = \<lparr>offset = (case offset' of None \<Rightarrow> 0 | Some n \<Rightarrow> n) + length data,
                  crc32 = (case crc32' of None \<Rightarrow> 0 | Some c \<Rightarrow> c) + 7 * length data\<rparr>
         in (([\<lparr>pw_offset = offset p, pw_type = type\<rparr>], Inr p), w\<lparr>reached := p\<rparr>)))"
  "objectWriter_setPrn (stubEnv devices failures err selected report connErr) =
     (\<lambda>prn w. (Inr (), w))"
  "objectWriter_setMtuSize (stubEnv devices failures err selected report connErr) =
     (\<lambda>mtu w. (Inr (), w))"
  "new_InitPacketState (stubEnv devices failures err selected report connErr) =
     (\<lambda>data response.
        Inr \<lparr>offset = offset response, crc32 = crc32 response,
             isResumable = (0 < offset response),
             remainingData = drop (offset response) data\<rparr>)"
  "new_FirmwareState (stubEnv devices failures err selected report connErr) =
     (\<lambda>data response.
        Inr \<lparr>offset = offset response, crc32 = crc32 response,
             isResumable = (0 < offset response),
             remainingPartialObject =
               drop (offset response) (take (maximumSize response) data),
             remainingObjects =
               (if offset response = 0 then [take (maximumSize response) data] else [])
               @ (if maximumSize response < length data
                  then [drop (maximumSize response) data] else [])\<rparr>)"
  by (simp_all add: stubEnv_def)

lemmas stub_run =
  stubEnv_simps stubDevices_def stubTransport_def stubParams_def init_connect_def
  connectIfNeeded_def getConnectedDevice_def getCharacteristicIds_def andThen_def call_eq
  resolve_def reject_def startCharacteristicsNotifications_def setMtuSize_def
  emitInitializeEvent_def emit_progressUpdate_def record_action_def andThen_run_def
  getInitPacketState_def getFirmwareState_def getObjectTypeString_def
  ObjectType_COMMAND_def ObjectType_DATA_def fresh_def partly_def firmware6_def Let_def
  DFU_SERVICE_UUID_def DFU_CONTROL_POINT_UUID_def DFU_PACKET_UUID_def

lemma init_stub:
  "init (Suc 0) (stubEnv stubDevices failures err selected report connErr) stubTransport
     = Some (Inr (Some True), initializedStub)"
  by (simp add: stub_run initializedStub_def)

lemma getFirmwareState_stub:
  "getFirmwareState (Suc 0) (stubEnv stubDevices failures err partly report connErr) firmware6
      (emitInitializeEvent ObjectType_DATA stubTransport)
   = Some (Inr \<lparr>offset = 2, crc32 = 14, isResumable = True,
                 remainingPartialObject = [3, 4], remainingObjects = [[5, 6]]\<rparr>,
           selectedStub ObjectType_DATA)"
  by (simp add: stub_run initializedStub_def selectedStub_def)

lemma getInitPacketState_stub:
  "getInitPacketState (Suc 0) (stubEnv stubDevices failures err partly report connErr) firmware6
      (emitInitializeEvent ObjectType_COMMAND stubTransport)
   = Some (Inr \<lparr>offset = 2, crc32 = 14, isResumable = True,
                 remainingData = [3, 4, 5, 6]\<rparr>,
           selectedStub ObjectType_COMMAND)"
  by (simp add: stub_run initializedStub_def selectedStub_def)

lemmas stub_write =
  writeObject_def objectWriter_write_def validateProgress_def emitTransferEvent_def
  objectTransfer_def

lemma writeObject_actionsSince:
  "\<exists>xs. actionsSince s (snd (writeObject env data type offset' crc32' s)) =
          WriteObject data type offset' crc32' # xs
       \<and> (\<forall>a \<in> set xs. \<not> isCreateObject a \<and> \<not> isWriteObject a)"
  using writeObject_trace [of env data type offset' crc32' s]
  by (auto simp: actionsSince_def)

subsection \<open>The device table and the disconnection wait\<close>

lemma find_SomeD:
  "find P xs = Some x \<Longrightarrow> x \<in> set xs \<and> P x"
  by (induction xs) (auto split: if_splits)

lemma getConnectedDevice_none:
  assumes "\<forall>(deviceId, dev) \<in> set (adapter_getDevices env w).
             address dev = target \<longrightarrow> \<not> connected dev"
  shows "getConnectedDevice env target w = None"
proof (cases "find (\<lambda>(deviceId, dev). address dev = target) (adapter_getDevices env w)")
  case None
  then show ?thesis by (simp add: getConnectedDevice_def)
next
  case (Some entry)
  obtain deviceId dev where e: "entry = (deviceId, dev)" by (cases entry)
  from Some have "entry \<in> set (adapter_getDevices env w)" and "address (snd entry) = target"
    by (auto dest: find_SomeD)
  with assms e have "\<not> connected dev" by auto
  with Some e show ?thesis by (simp add: getConnectedDevice_def)
qed

lemma getConnectedDevice_only:
  assumes "(deviceId, dev) \<in> set (adapter_getDevices env w)"
    and "address dev = target" and "connected dev" and "deviceId \<noteq> []"
    and "\<forall>(k, d) \<in> set (adapter_getDevices env w).
            address d = target \<longrightarrow> (k, d) = (deviceId, dev)"
  shows "getConnectedDevice env target w = Some dev"
proof -
  let ?P = "\<lambda>(deviceId, dev). address dev = target"
  have "find ?P (adapter_getDevices env w) \<noteq> None"
    using assms(1,2) by (auto simp: find_None_iff)
  then obtain entry where f: "find ?P (adapter_getDevices env w) = Some entry"
    by blast
  then have "entry \<in> set (adapter_getDevices env w)" and "?P entry"
    by (auto dest: find_SomeD)
  with assms(5) have "entry = (deviceId, dev)"
    by auto
  with f assms(3,4) show ?thesis
    by (simp add: getConnectedDevice_def)
qed

lemma waitStep_idle:
  "waitStep \<lparr>settled = x, pendingTimeout = None, disconnectionListener = None\<rparr> ev
     = \<lparr>settled = x, pendingTimeout = None, disconnectionListener = None\<rparr>"
  by (cases ev) (simp_all add: disconnectionHandler_def timeoutElapsed_def)

lemma foldl_waitStep_idle:
  "foldl waitStep \<lparr>settled = x, pendingTimeout = None, disconnectionListener = None\<rparr> evs
     = \<lparr>settled = x, pendingTimeout = None, disconnectionListener = None\<rparr>"
  by (induction evs) (simp_all add: waitStep_idle)

lemma foldl_waitStep_others:
  assumes "disconnectionListener wt = Some i" and "\<forall>d \<in> set others. instanceId d \<noteq> i"
  shows "foldl waitStep wt (map DeviceDisconnected others) = wt"
  using assms by (induction others) (simp_all add: disconnectionHandler_def)

lemma getConnectedDevice_stub:
  "getConnectedDevice (stubEnv stubDevices failures err selected report connErr) ''BB:BB'' w
     = Some targetDevice"
  by (simp add: getConnectedDevice_def stubEnv_simps stubDevices_def targetDevice_def)

text \<open>
  \<^verbatim>\<open>waitForDisconnection\<close> resolves at once, with no timer and no listener,
  when no device of the table with the target address is connected. When
  \<^verbatim>\<open>_getConnectedDevice\<close> finds the connected target, the promise is pending
  with a timer of 10000 ms and a listener for that device's
  \<^verbatim>\<open>instanceId\<close>: disconnections of other devices change nothing, the
  first disconnection of that instance resolves, and the timer elapsing before it
  rejects with DISCONNECTION_TIMEOUT; either way no timer stays pending, the listener is
  removed and later events change nothing. \<^verbatim>\<open>_getConnectedDevice\<close> finds the
  target when one entry of the table has the target address, under a non-empty key and
  connected.
\<close>

lemma waitForDisconnection_found_target:
  "((\<forall>(deviceId, dev) \<in> set (adapter_getDevices env (world s)).
        address dev = targetAddress (params s) \<longrightarrow> \<not> connected dev)
      \<longrightarrow> waitForDisconnection env s
           = \<lparr>settled = Resolved, pendingTimeout = None, disconnectionListener = None\<rparr>)
   \<and> (getConnectedDevice env (targetAddress (params s)) (world s) = Some connectedDevice
      \<longrightarrow> waitForDisconnection env s
           = \<lparr>settled = Pending, pendingTimeout = Some 10000,
              disconnectionListener = Some (instanceId connectedDevice)\<rparr>
        \<and> ((\<forall>d \<in> set others. instanceId d \<noteq> instanceId connectedDevice)
              \<and> instanceId dev = instanceId connectedDevice
            \<longrightarrow> foldl waitStep (waitForDisconnection env s)
                  (map DeviceDisconnected others @ DeviceDisconnected dev # rest)
                = \<lparr>settled = Resolved, pendingTimeout = None, disconnectionListener = None\<rparr>)
        \<and> ((\<forall>d \<in> set others. instanceId d \<noteq> instanceId connectedDevice)
            \<longrightarrow> foldl waitStep (waitForDisconnection env s)
                  (map DeviceDisconnected others)
                = waitForDisconnection env s
              \<and> foldl waitStep (waitForDisconnection env s)
                  (map DeviceDisconnected others @ TimeoutElapsed # rest)
                = \<lparr>settled = Rejected timedOut, pendingTimeout = None,
                   disconnectionListener = None\<rparr>))
   \<and> ((deviceId, dev) \<in> set (adapter_getDevices env (world s))
        \<and> address dev = targetAddress (params s) \<and> connected dev \<and> deviceId \<noteq> []
        \<and> (\<forall>(k, d) \<in> set (adapter_getDevices env (world s)).
              address d = targetAddress (params s) \<longrightarrow> (k, d) = (deviceId, dev))
      \<longrightarrow> getConnectedDevice env (targetAddress (params s)) (world s) = Some dev)"
proof (intro conjI impI)
  assume "\<forall>(deviceId, dev) \<in> set (adapter_getDevices env (world s)).
        address dev = targetAddress (params s) \<longrightarrow> \<not> connected dev"
  then show "waitForDisconnection env s
           = \<lparr>settled = Resolved, pendingTimeout = None, disconnectionListener = None\<rparr>"
    by (simp add: waitForDisconnection_def getConnectedDevice_none)
next
  assume c: "getConnectedDevice env (targetAddress (params s)) (world s) = Some connectedDevice"
  then show w: "waitForDisconnection env s
           = \<lparr>settled = Pending, pendingTimeout = Some 10000,
              disconnectionListener = Some (instanceId connectedDevice)\<rparr>"
    by (simp add: waitForDisconnection_def TIMEOUT_MS_def)
  {
    assume o: "\<forall>d \<in> set others. instanceId d \<noteq> instanceId connectedDevice"
    have l: "disconnectionListener (waitForDisconnection env s) = Some (instanceId connectedDevice)"
      using w by simp
    show same: "foldl waitStep (waitForDisconnection env s) (map DeviceDisconnected others)
                = waitForDisconnection env s"
      by (rule foldl_waitStep_others [OF l o])
    show "foldl waitStep (waitForDisconnection env s)
                  (map DeviceDisconnected others @ TimeoutElapsed # rest)
                = \<lparr>settled = Rejected timedOut, pendingTimeout = None,
                   disconnectionListener = None\<rparr>"
      by (simp add: same) (simp add: w timeoutElapsed_def settle_def timedOut_def foldl_waitStep_idle)
  }
  {
    assume o: "(\<forall>d \<in> set others. instanceId d \<noteq> instanceId connectedDevice)
              \<and> instanceId dev = instanceId connectedDevice"
    have l: "disconnectionListener (waitForDisconnection env s) = Some (instanceId connectedDevice)"
      using w by simp
    have same: "foldl waitStep (waitForDisconnection env s) (map DeviceDisconnected others)
                = waitForDisconnection env s"
      using o by (intro foldl_waitStep_others [OF l]) simp
    show "foldl waitStep (waitForDisconnection env s)
                  (map DeviceDisconnected others @ DeviceDisconnected dev # rest)
                = \<lparr>settled = Resolved, pendingTimeout = None, disconnectionListener = None\<rparr>"
      using o
      by (simp add: same) (simp add: w disconnectionHandler_def settle_def foldl_waitStep_idle)
  }
next
  assume "(deviceId, dev) \<in> set (adapter_getDevices env (world s))
        \<and> address dev = targetAddress (params s) \<and> connected dev \<and> deviceId \<noteq> []
        \<and> (\<forall>(k, d) \<in> set (adapter_getDevices env (world s)).
              address d = targetAddress (params s) \<longrightarrow> (k, d) = (deviceId, dev))"
  then show "getConnectedDevice env (targetAddress (params s)) (world s) = Some dev"
    by (intro getConnectedDevice_only [of deviceId dev]) simp_all
qed

lemma waitForDisconnection_found_target_stub:
  "waitForDisconnection
      (stubEnv [(''other.0'', otherDevice)] 0 commandError fresh (\<lambda>p. p) None) stubTransport
     = \<lparr>settled = Resolved, pendingTimeout = None, disconnectionListener = None\<rparr>
   \<and> waitForDisconnection (stubEnv stubDevices 0 commandError fresh (\<lambda>p. p) None) stubTransport
     = \<lparr>settled = Pending, pendingTimeout = Some 10000,
        disconnectionListener = Some ''target.1''\<rparr>
   \<and> foldl waitStep
        (waitForDisconnection (stubEnv stubDevices 0 commandError fresh (\<lambda>p. p) None)
           stubTransport)
        [DeviceDisconnected otherDevice, DeviceDisconnected targetDevice, TimeoutElapsed]
     = \<lparr>settled = Resolved, pendingTimeout = None, disconnectionListener = None\<rparr>
   \<and> foldl waitStep
        (waitForDisconnection (stubEnv stubDevices 0 commandError fresh (\<lambda>p. p) None)
           stubTransport)
        [DeviceDisconnected otherDevice, TimeoutElapsed, DeviceDisconnected targetDevice]
     = \<lparr>settled = Rejected timedOut, pendingTimeout = None, disconnectionListener = None\<rparr>"
proof -
  let ?none = "stubEnv [(''other.0'', otherDevice)] 0 commandError fresh (\<lambda>p. p) None"
  let ?env = "stubEnv stubDevices 0 commandError fresh (\<lambda>p. p) None"
  have a: "\<forall>(deviceId, dev) \<in> set (adapter_getDevices ?none (world stubTransport)).
        address dev = targetAddress (params stubTransport) \<longrightarrow> \<not> connected dev"
    by (simp add: stubEnv_simps otherDevice_def stubTransport_def stubParams_def)
  have b: "getConnectedDevice ?env (targetAddress (params stubTransport)) (world stubTransport)
            = Some targetDevice"
    by (simp add: stubTransport_def stubParams_def getConnectedDevice_stub)
  have o: "\<forall>d \<in> set [otherDevice]. instanceId d \<noteq> instanceId targetDevice"
    by (simp add: otherDevice_def targetDevice_def)
  have i: "instanceId targetDevice = ''target.1''"
    by (simp add: targetDevice_def)
  have 1: "waitForDisconnection ?none stubTransport
     = \<lparr>settled = Resolved, pendingTimeout = None, disconnectionListener = None\<rparr>"
    using a waitForDisconnection_found_target [where env = ?none and s = stubTransport]
    by blast
  have 2: "waitForDisconnection ?env stubTransport
     = \<lparr>settled = Pending, pendingTimeout = Some 10000,
        disconnectionListener = Some (instanceId targetDevice)\<rparr>"
    using b waitForDisconnection_found_target [where env = ?env and s = stubTransport
        and connectedDevice = targetDevice]
    by blast
  have 3: "foldl waitStep (waitForDisconnection ?env stubTransport)
        (map DeviceDisconnected [otherDevice] @ DeviceDisconnected targetDevice # [TimeoutElapsed])
     = \<lparr>settled = Resolved, pendingTimeout = None, disconnectionListener = None\<rparr>"
    using b o waitForDisconnection_found_target [where env = ?env and s = stubTransport
        and connectedDevice = targetDevice and others = "[otherDevice]" and dev = targetDevice
        and rest = "[TimeoutElapsed]"]
    by blast
  have 4: "foldl waitStep (waitForDisconnection ?env stubTransport)
        (map DeviceDisconnected [otherDevice] @ TimeoutElapsed # [DeviceDisconnected targetDevice])
     = \<lparr>settled = Rejected timedOut, pendingTimeout = None, disconnectionListener = None\<rparr>"
    using b o waitForDisconnection_found_target [where env = ?env and s = stubTransport
        and connectedDevice = targetDevice and others = "[otherDevice]"
        and rest = "[DeviceDisconnected targetDevice]"]
    by blast
  show ?thesis
    using 1 2 3 4 by (simp add: i)
qed

text \<open>
  When \<^verbatim>\<open>_getConnectedDevice\<close> finds the target and the request is of that
  instance, \<^verbatim>\<open>_handleConnParamUpdateRequest\<close> passes it to
  \<^verbatim>\<open>adapter.updateConnectionParameters\<close>, and on an error of the adapter its
  callback throws an error with code CONNECTION_PARAM_ERROR and the adapter's message.
  Any other request is ignored. The handler leaves the transport's parameters and its
  \<^verbatim>\<open>_isInitialized\<close> flag as they are and calls nothing else. (What becomes
  of the exception after it has left the callback is not part of the model.)
\<close>

lemma handleConnParamUpdateRequest_found_target:
  "(getConnectedDevice env (targetAddress (params s)) (world s) = Some connectedDevice
      \<and> instanceId connectedDevice = instanceId dev
      \<and> adapter_updateConnectionParameters env (instanceId dev) connectionParameters (world s)
          = (err, w')
    \<longrightarrow> handleConnParamUpdateRequest env dev connectionParameters s =
          ((case err of
              Some e \<Rightarrow> Some (createError ErrorCode_CONNECTION_PARAM_ERROR (message e))
            | None \<Rightarrow> None),
           s\<lparr>world := w',
             trace := trace s @ [UpdateConnectionParameters (instanceId dev) connectionParameters]\<rparr>))
   \<and> (getConnectedDevice env (targetAddress (params s)) (world s) = None
    \<longrightarrow> handleConnParamUpdateRequest env dev connectionParameters s = (None, s))
   \<and> (getConnectedDevice env (targetAddress (params s)) (world s) = Some connectedDevice
      \<and> instanceId connectedDevice \<noteq> instanceId dev
    \<longrightarrow> handleConnParamUpdateRequest env dev connectionParameters s = (None, s))
   \<and> params (snd (handleConnParamUpdateRequest env dev connectionParameters s)) = params s
   \<and> isInitialized (snd (handleConnParamUpdateRequest env dev connectionParameters s))
       = isInitialized s
   \<and> (actionsSince s (snd (handleConnParamUpdateRequest env dev connectionParameters s)) = []
      \<or> actionsSince s (snd (handleConnParamUpdateRequest env dev connectionParameters s))
          = [UpdateConnectionParameters (instanceId dev) connectionParameters])"
  by (auto simp: handleConnParamUpdateRequest_def record_action_def actionsSince_def
      split: option.split prod.split)

lemma handleConnParamUpdateRequest_found_target_stub:
  "handleConnParamUpdateRequest
      (stubEnv stubDevices 0 commandError fresh (\<lambda>p. p)
         (Some \<lparr>code = None, message = ''BLE_ERROR_INVALID_CONN_HANDLE''\<rparr>))
      targetDevice DEFAULT_CONNECTION_PARAMS initializedStub
     = (Some (createError ErrorCode_CONNECTION_PARAM_ERROR ''BLE_ERROR_INVALID_CONN_HANDLE''),
        initializedStub
          \<lparr>trace := trace initializedStub
             @ [UpdateConnectionParameters ''target.1'' DEFAULT_CONNECTION_PARAMS]\<rparr>)
   \<and> handleConnParamUpdateRequest
      (stubEnv stubDevices 0 commandError fresh (\<lambda>p. p)
         (Some \<lparr>code = None, message = ''BLE_ERROR_INVALID_CONN_HANDLE''\<rparr>))
      otherDevice DEFAULT_CONNECTION_PARAMS initializedStub
     = (None, initializedStub)"
proof -
  let ?env = "stubEnv stubDevices 0 commandError fresh (\<lambda>p. p)
         (Some \<lparr>code = None, message = ''BLE_ERROR_INVALID_CONN_HANDLE''\<rparr>)"
  have b: "getConnectedDevice ?env (targetAddress (params initializedStub)) (world initializedStub)
            = Some targetDevice"
    by (simp add: initializedStub_def stubParams_def getConnectedDevice_stub)
  have u: "adapter_updateConnectionParameters ?env (instanceId targetDevice)
             DEFAULT_CONNECTION_PARAMS (world initializedStub)
           = (Some \<lparr>code = None, message = ''BLE_ERROR_INVALID_CONN_HANDLE''\<rparr>,
              world initializedStub)"
    by (simp add: stubEnv_simps)
  have n: "instanceId targetDevice \<noteq> instanceId otherDevice"
    by (simp add: otherDevice_def targetDevice_def)
  have 1: "handleConnParamUpdateRequest ?env targetDevice DEFAULT_CONNECTION_PARAMS initializedStub =
          ((case Some \<lparr>code = None, message = ''BLE_ERROR_INVALID_CONN_HANDLE''\<rparr> of
              Some e \<Rightarrow> Some (createError ErrorCode_CONNECTION_PARAM_ERROR (message e))
            | None \<Rightarrow> None),
           initializedStub\<lparr>world := world initializedStub,
             trace := trace initializedStub
               @ [UpdateConnectionParameters (instanceId targetDevice) DEFAULT_CONNECTION_PARAMS]\<rparr>)"
    using b u handleConnParamUpdateRequest_found_target [where env = ?env and s = initializedStub
        and connectedDevice = targetDevice and dev = targetDevice
        and connectionParameters = DEFAULT_CONNECTION_PARAMS
        and w' = "world initializedStub"
        and err = "Some \<lparr>code = None, message = ''BLE_ERROR_INVALID_CONN_HANDLE''\<rparr>"]
    by blast
  have 2: "handleConnParamUpdateRequest ?env otherDevice DEFAULT_CONNECTION_PARAMS initializedStub
            = (None, initializedStub)"
    using b n handleConnParamUpdateRequest_found_target [where env = ?env and s = initializedStub
        and connectedDevice = targetDevice and dev = otherDevice
        and connectionParameters = DEFAULT_CONNECTION_PARAMS]
    by blast
  show ?thesis
    using 1 2 by (simp add: targetDevice_def)
qed

subsection \<open>\<^verbatim>\<open>init\<close> with a packet receipt notification value\<close>

text \<open>
  With a truthy \<^verbatim>\<open>prnValue\<close>, \<^verbatim>\<open>init\<close> on a transport that is
  not initialized never resolves: \<^verbatim>\<open>_setPrn\<close> enters \<^verbatim>\<open>init\<close>
  again before \<^verbatim>\<open>_isInitialized\<close> is set. It rejects or runs on.
\<close>

lemma init_connect_keeps:
  "init_connect env a t s = (r, s') \<Longrightarrow> isInitialized s' = isInitialized s \<and> params s' = params s"
  by (auto simp: init_connect_def andThen_def connectIfNeeded_def connect_def call_eq resolve_def
      reject_def getCharacteristicIds_def startCharacteristicsNotifications_def record_action_def
      Let_def split: option.splits prod.splits sum.splits)

lemma init_with_prn_never_resolves:
  "\<not> isInitialized s \<Longrightarrow> prnValue (params s) = Some prn \<Longrightarrow> prn \<noteq> 0 \<Longrightarrow>
     init fuel env s \<noteq> Some (Inr v, s')"
proof (induction fuel arbitrary: s v s')
  case 0
  show ?case by simp
next
  case (Suc fuel)
  obtain r s1 where c: "init_connect env (targetAddress (params s)) (targetAddressType (params s)) s = (r, s1)"
    by (metis surj_pair)
  have k: "\<not> isInitialized s1" "prnValue (params s1) = Some prn"
    using init_connect_keeps [OF c] Suc.prems by simp_all
  have "init fuel env s1 \<noteq> Some (Inr u, t)" for u t
    using Suc.IH [OF k(1) k(2) Suc.prems(3)] .
  then show ?case
    using Suc.prems c
    by (cases r) (auto split: option.splits prod.splits sum.splits)
qed

subsection \<open>The retry ceiling on the stub\<close>

text \<open>
  Two rejected \<^verbatim>\<open>createObject\<close> calls and
  a third that resolves give the progress of the write; three rejections give the last
  error after three calls; a rejection with ABORTED ends the transfer after one call.
\<close>

lemma createAndWriteObject_stub_runs:
  "fst (createAndWriteObject (stubEnv stubDevices 2 commandError fresh (\<lambda>p. p) None)
          firmware6 ObjectType_COMMAND None None initializedStub)
     = Inr \<lparr>offset = 6, crc32 = 42\<rparr>"
  "actionsSince initializedStub
     (snd (createAndWriteObject (stubEnv stubDevices 2 commandError fresh (\<lambda>p. p) None)
          firmware6 ObjectType_COMMAND None None initializedStub))
     = [CreateObject ObjectType_COMMAND 6, CreateObject ObjectType_COMMAND 6,
        CreateObject ObjectType_COMMAND 6,
        WriteObject firmware6 ObjectType_COMMAND None None,
        ProgressUpdate \<lparr>stage = ''Transferring init packet'', event_offset = None\<rparr>,
        CalculateChecksum, Execute]"
  "fst (createAndWriteObject (stubEnv stubDevices 3 commandError fresh (\<lambda>p. p) None)
          firmware6 ObjectType_COMMAND None None initializedStub)
     = Inl commandError"
  "actionsSince initializedStub
     (snd (createAndWriteObject (stubEnv stubDevices 3 commandError fresh (\<lambda>p. p) None)
          firmware6 ObjectType_COMMAND None None initializedStub))
     = [CreateObject ObjectType_COMMAND 6, CreateObject ObjectType_COMMAND 6,
        CreateObject ObjectType_COMMAND 6]"
  "fst (createAndWriteObject
          (stubEnv stubDevices 3 (createError ErrorCode_ABORTED ''Aborted'') fresh (\<lambda>p. p) None)
          firmware6 ObjectType_COMMAND None None initializedStub)
     = Inl (createError ErrorCode_ABORTED ''Aborted'')"
  "actionsSince initializedStub
     (snd (createAndWriteObject
          (stubEnv stubDevices 3 (createError ErrorCode_ABORTED ''Aborted'') fresh (\<lambda>p. p) None)
          firmware6 ObjectType_COMMAND None None initializedStub))
     = [CreateObject ObjectType_COMMAND 6]"
  by (simp_all add: createAndWriteObject_unrolled stub_run stub_write initializedStub_def
      actionsSince_def terminalError_def commandError_def createError_def
      ErrorCode_ABORTED_def ErrorCode_NOTIFICATION_TIMEOUT_def ErrorCode_COMMAND_ERROR_def)

subsection \<open>The claims\<close>

text \<open>
  C9. The control point opcodes, the result codes and the object kinds have the
  values of the wire format: Create 0x01, SetPRN 0x02, CalculateChecksum 0x03,
  Execute 0x04, Select 0x06, Response 0x60; Success 0x01, OpcodeNotSupported 0x02,
  InvalidParameter 0x03, InsufficientResources 0x04, InvalidObject 0x05,
  UnsupportedType 0x07, OperationNotPermitted 0x08, OperationFailed 0x0A;
  Command 0x01, Data 0x02.
\<close>

theorem C9_wire_constants:
  "readProp ControlPointOpcode ''CREATE'' = Some 0x01
   \<and> readProp ControlPointOpcode ''SET_PRN'' = Some 0x02
   \<and> readProp ControlPointOpcode ''CALCULATE_CRC'' = Some 0x03
   \<and> readProp ControlPointOpcode ''EXECUTE'' = Some 0x04
   \<and> readProp ControlPointOpcode ''SELECT'' = Some 0x06
   \<and> readProp ControlPointOpcode ''RESPONSE'' = Some 0x60
   \<and> readProp ResultCode ''SUCCESS'' = Some 0x01
   \<and> readProp ResultCode ''OPCODE_NOT_SUPPORTED'' = Some 0x02
   \<and> readProp ResultCode ''INVALID_PARAMETER'' = Some 0x03
   \<and> readProp ResultCode ''INSUFFICIENT_RESOURCES'' = Some 0x04
   \<and> readProp ResultCode ''INVALID_OBJECT'' = Some 0x05
   \<and> readProp ResultCode ''UNSUPPORTED_TYPE'' = Some 0x07
   \<and> readProp ResultCode ''OPERATION_NOT_PERMITTED'' = Some 0x08
   \<and> readProp ResultCode ''OPERATION_FAILED'' = Some 0x0A
   \<and> readProp ObjectType ''COMMAND'' = Some 0x01
   \<and> readProp ObjectType ''DATA'' = Some 0x02"
  by (simp add: readProp_def ControlPointOpcode_def ResultCode_def ObjectType_def)

text \<open>
  C2. After the writer's \<^verbatim>\<open>writeObject\<close> resolves, \<^verbatim>\<open>_writeObject\<close>
  calls \<^verbatim>\<open>calculateChecksum\<close> and compares the reported offset and crc32
  with the writer's progress. \<^verbatim>\<open>execute\<close> is called only when both agree, after
  that call; a mismatch rejects with INVALID_OFFSET or INVALID_CRC and
  \<^verbatim>\<open>execute\<close> is not called. The three premises name what the collaborators
  answer.
\<close>

theorem C2_execute_only_after_crosscheck:
  assumes w: "objectWriter_writeObject env data type offset' crc32' (world s) = ((packets, rw), w1)"
    and c: "controlPointService_calculateChecksum env w1 = (rc, w2)"
    and x: "controlPointService_execute env w2 = (rx, w3)"
  shows "actionsSince s (snd (writeObject env data type offset' crc32' s)) =
           WriteObject data type offset' crc32' # map transferEvent packets @
             (case rw of
                Inl e \<Rightarrow> []
              | Inr p \<Rightarrow>
                  CalculateChecksum #
                    (case rc of
                       Inl e \<Rightarrow> []
                     | Inr response \<Rightarrow>
                         if offset p = offset response \<and> crc32 p = crc32 response
                         then [Execute] else []))
       \<and> (Execute \<in> set (actionsSince s (snd (writeObject env data type offset' crc32' s)))
            \<longleftrightarrow> (\<exists>p response. rw = Inr p \<and> rc = Inr response
                   \<and> offset response = offset p \<and> crc32 response = crc32 p))
       \<and> fst (writeObject env data type offset' crc32' s) =
           (case rw of
              Inl e \<Rightarrow> Inl e
            | Inr p \<Rightarrow>
                (case rc of
                   Inl e \<Rightarrow> Inl e
                 | Inr response \<Rightarrow>
                     if offset p \<noteq> offset response then
                       Inl (createError ErrorCode_INVALID_OFFSET
                         (''Error when validating offset. Got '' @ string_of_nat (offset response)
                           @ '', but expected '' @ string_of_nat (offset p) @ ''.''))
                     else if crc32 p \<noteq> crc32 response then
                       Inl (createError ErrorCode_INVALID_CRC
                         (''Error when validating CRC. Got '' @ string_of_nat (crc32 response)
                           @ '', but expected '' @ string_of_nat (crc32 p) @ ''.''))
                     else (case rx of Inl e \<Rightarrow> Inl e | Inr u \<Rightarrow> Inr p)))"
proof -
  have a: "actionsSince s (snd (writeObject env data type offset' crc32' s)) =
           WriteObject data type offset' crc32' # map transferEvent packets @
             (case rw of
                Inl e \<Rightarrow> []
              | Inr p \<Rightarrow>
                  CalculateChecksum #
                    (case rc of
                       Inl e \<Rightarrow> []
                     | Inr response \<Rightarrow>
                         if offset p = offset response \<and> crc32 p = crc32 response
                         then [Execute] else []))"
    unfolding actionsSince_def writeObject_actions [OF w c x] by simp
  have b: "Execute \<in> set (actionsSince s (snd (writeObject env data type offset' crc32' s)))
            \<longleftrightarrow> (\<exists>p response. rw = Inr p \<and> rc = Inr response
                   \<and> offset response = offset p \<and> crc32 response = crc32 p)"
    unfolding a using transferEvent_kinds(1) [of packets]
    by (auto split: sum.splits if_splits)
  show ?thesis
    using a b writeObject_result [OF w c x] by blast
qed

theorem C2_execute_only_after_crosscheck_witness:
  "Execute \<in> set (actionsSince stubTransport
       (snd (writeObject (stubEnv stubDevices 0 commandError fresh (\<lambda>p. p) None)
          firmware6 ObjectType_DATA (Some 0) (Some 0) stubTransport)))
   \<and> Execute \<notin> set (actionsSince stubTransport
       (snd (writeObject (stubEnv stubDevices 0 commandError fresh (\<lambda>p. p\<lparr>crc32 := 1\<rparr>) None)
          firmware6 ObjectType_DATA (Some 0) (Some 0) stubTransport)))
   \<and> fst (writeObject (stubEnv stubDevices 0 commandError fresh (\<lambda>p. p\<lparr>crc32 := 1\<rparr>) None)
          firmware6 ObjectType_DATA (Some 0) (Some 0) stubTransport)
       = Inl (createError ErrorCode_INVALID_CRC ''Error when validating CRC. Got 1, but expected 42.'')"
proof -
  let ?p = "\<lparr>offset = 6, crc32 = 42\<rparr>"
  let ?w1 = "\<lparr>creates = 0, reached = ?p\<rparr>"
  let ?pk = "[\<lparr>pw_offset = 6, pw_type = ObjectType_DATA\<rparr>]"
  let ?good = "stubEnv stubDevices 0 commandError fresh (\<lambda>p. p) None"
  let ?bad = "stubEnv stubDevices 0 commandError fresh (\<lambda>p. p\<lparr>crc32 := 1\<rparr>) None"
  have g1: "objectWriter_writeObject ?good firmware6 ObjectType_DATA (Some 0) (Some 0)
              (world stubTransport) = ((?pk, Inr ?p), ?w1)"
    by (simp add: stubEnv_simps stubTransport_def firmware6_def Let_def)
  have g2: "controlPointService_calculateChecksum ?good ?w1 = (Inr ?p, ?w1)"
    by (simp add: stubEnv_simps)
  have g3: "controlPointService_execute ?good ?w1 = (Inr (), ?w1)"
    by (simp add: stubEnv_simps)
  have b1: "objectWriter_writeObject ?bad firmware6 ObjectType_DATA (Some 0) (Some 0)
              (world stubTransport) = ((?pk, Inr ?p), ?w1)"
    by (simp add: stubEnv_simps stubTransport_def firmware6_def Let_def)
  have b2: "controlPointService_calculateChecksum ?bad ?w1 = (Inr (?p\<lparr>crc32 := 1\<rparr>), ?w1)"
    by (simp add: stubEnv_simps)
  have b3: "controlPointService_execute ?bad ?w1 = (Inr (), ?w1)"
    by (simp add: stubEnv_simps)
  have s42: "string_of_nat 42 = ''42''" "string_of_nat (Suc 0) = ''1''"
    by (simp_all add: string_of_nat.simps)
  show ?thesis
    using C2_execute_only_after_crosscheck [OF g1 g2 g3]
      C2_execute_only_after_crosscheck [OF b1 b2 b3]
    by (simp add: s42 transferEvent_def)
qed

text \<open>
  C10. In \<^verbatim>\<open>_validateProgress\<close> the offsets are compared before the crc32
  values. When \<^verbatim>\<open>calculateChecksum\<close> resolves with a response whose offset
  differs from the writer's, the result is INVALID_OFFSET, whatever the crc32 values
  are; INVALID_CRC is the result exactly when the offsets are equal and the crc32 values
  differ.
\<close>

theorem C10_offset_checked_before_crc:
  assumes "controlPointService_calculateChecksum env (world s) = (Inr response, w')"
  shows "(offset progressInfo \<noteq> offset response \<longrightarrow>
            fst (validateProgress env progressInfo s) =
              Inl (createError ErrorCode_INVALID_OFFSET
                (''Error when validating offset. Got '' @ string_of_nat (offset response)
                  @ '', but expected '' @ string_of_nat (offset progressInfo) @ ''.'')))
       \<and> ((\<exists>e. fst (validateProgress env progressInfo s) = Inl e
                \<and> code e = Some ErrorCode_INVALID_CRC)
            \<longleftrightarrow> (offset progressInfo = offset response \<and> crc32 progressInfo \<noteq> crc32 response))
       \<and> (offset progressInfo = offset response \<and> crc32 progressInfo \<noteq> crc32 response \<longrightarrow>
            fst (validateProgress env progressInfo s) =
              Inl (createError ErrorCode_INVALID_CRC
                (''Error when validating CRC. Got '' @ string_of_nat (crc32 response)
                  @ '', but expected '' @ string_of_nat (crc32 progressInfo) @ ''.'')))
       \<and> (fst (validateProgress env progressInfo s) = Inr ()
            \<longleftrightarrow> (offset progressInfo = offset response \<and> crc32 progressInfo = crc32 response))"
  unfolding validateProgress_eq [OF assms]
  by (simp add: createError_def ErrorCode_INVALID_CRC_def ErrorCode_INVALID_OFFSET_def)

theorem C10_offset_checked_before_crc_witness:
  "controlPointService_calculateChecksum (stubEnv stubDevices 0 commandError fresh (\<lambda>p. p) None)
      (world stubTransport) = (Inr \<lparr>offset = 0, crc32 = 0\<rparr>, world stubTransport)
   \<and> fst (validateProgress (stubEnv stubDevices 0 commandError fresh (\<lambda>p. p) None)
        \<lparr>offset = 4, crc32 = 9\<rparr> stubTransport)
       = Inl (createError ErrorCode_INVALID_OFFSET
                ''Error when validating offset. Got 0, but expected 4.'')
   \<and> fst (validateProgress (stubEnv stubDevices 0 commandError fresh (\<lambda>p. p) None)
        \<lparr>offset = 0, crc32 = 9\<rparr> stubTransport)
       = Inl (createError ErrorCode_INVALID_CRC
                ''Error when validating CRC. Got 0, but expected 9.'')"
proof -
  let ?env = "stubEnv stubDevices 0 commandError fresh (\<lambda>p. p) None"
  have h: "controlPointService_calculateChecksum ?env (world stubTransport)
             = (Inr \<lparr>offset = 0, crc32 = 0\<rparr>, world stubTransport)"
    by (simp add: stubEnv_simps stubTransport_def)
  have n: "string_of_nat 0 = ''0''" "string_of_nat 4 = ''4''" "string_of_nat 9 = ''9''"
    by (simp_all add: string_of_nat.simps)
  show ?thesis
    using h C10_offset_checked_before_crc [OF h, of "\<lparr>offset = 4, crc32 = 9\<rparr>"]
      C10_offset_checked_before_crc [OF h, of "\<lparr>offset = 0, crc32 = 9\<rparr>"]
    by (simp add: n)
qed

text \<open>
  C6. The \<^verbatim>\<open>progressUpdate\<close> event of a written packet has the stage
  \<^verbatim>\<open>Transferring <kind>\<close>, and an offset exactly when the object type is
  DATA: for COMMAND the event is the stage alone. Every \<^verbatim>\<open>packetWritten\<close>
  of a write becomes one such event, in order.
\<close>

theorem C6_progressUpdate_offset_iff_data:
  "emitTransferEvent offset' type s =
     s\<lparr>trace := trace s @
        [ProgressUpdate
           \<lparr>stage = ''Transferring '' @ getObjectTypeString type,
            event_offset = (if type = ObjectType_DATA then Some offset' else None)\<rparr>]\<rparr>
   \<and> emitTransferEvent offset' ObjectType_DATA s =
     s\<lparr>trace := trace s @
        [ProgressUpdate \<lparr>stage = ''Transferring firmware'', event_offset = Some offset'\<rparr>]\<rparr>
   \<and> emitTransferEvent offset' ObjectType_COMMAND s =
     s\<lparr>trace := trace s @
        [ProgressUpdate \<lparr>stage = ''Transferring init packet'', event_offset = None\<rparr>]\<rparr>
   \<and> snd (objectWriter_write env data type' start startCrc s) =
       (case objectWriter_writeObject env data type' start startCrc (world s) of
          ((packets, r), w') \<Rightarrow>
            s\<lparr>world := w',
              trace := trace s @ WriteObject data type' start startCrc #
                map (\<lambda>pk. ProgressUpdate
                      \<lparr>stage = ''Transferring '' @ getObjectTypeString (pw_type pk),
                       event_offset = (if pw_type pk = ObjectType_DATA
                                       then Some (pw_offset pk) else None)\<rparr>) packets\<rparr>)"
proof -
  have "transferEvent = (\<lambda>pk. ProgressUpdate
                      \<lparr>stage = ''Transferring '' @ getObjectTypeString (pw_type pk),
                       event_offset = (if pw_type pk = ObjectType_DATA
                                       then Some (pw_offset pk) else None)\<rparr>)"
    by (rule ext) (simp add: transferEvent_def)
  then have "snd (objectWriter_write env data type' start startCrc s) =
       (case objectWriter_writeObject env data type' start startCrc (world s) of
          ((packets, r), w') \<Rightarrow>
            s\<lparr>world := w',
              trace := trace s @ WriteObject data type' start startCrc #
                map (\<lambda>pk. ProgressUpdate
                      \<lparr>stage = ''Transferring '' @ getObjectTypeString (pw_type pk),
                       event_offset = (if pw_type pk = ObjectType_DATA
                                       then Some (pw_offset pk) else None)\<rparr>) packets\<rparr>)"
    by (simp add: objectWriter_write_def fold_emitTransferEvent record_action_def split: prod.split)
  then show ?thesis
    by (simp add: emitTransferEvent_trace getObjectTypeString_def
        ObjectType_DATA_def ObjectType_COMMAND_def)
qed

text \<open>
  C1. \<^verbatim>\<open>_createAndWriteObject\<close> runs the object transfer
  (\<^verbatim>\<open>createObject\<close>, then \<^verbatim>\<open>_writeObject\<close>) with the same data,
  type, offset and crc32 at every attempt. It stops at the first attempt that resolves.
  A rejection with code ABORTED or NOTIFICATION_TIMEOUT is passed on at once; any other
  rejection starts the next attempt, and the third attempt's outcome is passed on as
  it is. So there are between one and three \<^verbatim>\<open>createObject\<close> calls.
\<close>

theorem C1_retry_ceiling:
  "createAndWriteObject env data type offset' crc32' s =
     (case objectTransfer env data type offset' crc32' s of
        (Inr progress, s1) \<Rightarrow> (Inr progress, s1)
      | (Inl e1, s1) \<Rightarrow>
          if terminalError e1 then (Inl e1, s1)
          else
            (case objectTransfer env data type offset' crc32' s1 of
               (Inr progress, s2) \<Rightarrow> (Inr progress, s2)
             | (Inl e2, s2) \<Rightarrow>
                 if terminalError e2 then (Inl e2, s2)
                 else objectTransfer env data type offset' crc32' s2))
   \<and> objectTransfer env data type offset' crc32' =
       andThen (call (CreateObject type (length data))
                  (controlPointService_createObject env type (length data)))
         (\<lambda>_. writeObject env data type offset' crc32')
   \<and> terminalError err =
       (code err = Some ErrorCode_ABORTED \<or> code err = Some ErrorCode_NOTIFICATION_TIMEOUT)
   \<and> (\<exists>xs. trace (snd (createAndWriteObject env data type offset' crc32' s)) = trace s @ xs
          \<and> 1 \<le> length (filter isCreateObject xs) \<and> length (filter isCreateObject xs) \<le> 3)"
  using createAndWriteObject_unrolled [of env data type offset' crc32' s]
    createAndWriteObject_creates [of env data type offset' crc32' s]
  by (simp add: objectTransfer_def terminalError_def)

text \<open>
  C4. Once \<^verbatim>\<open>init\<close> has resolved, \<^verbatim>\<open>_isInitialized\<close> is set,
  and every later \<^verbatim>\<open>init\<close> resolves at once and leaves the state and the
  trace as they are: it calls no collaborator (no connect, no characteristic discovery,
  no start of notifications, no PRN or MTU setting).
\<close>

theorem C4_init_idempotent:
  "(isInitialized s \<longrightarrow> init (Suc fuel) env s = Some (Inr None, s))
   \<and> (init fuel env s = Some (Inr v, s') \<longrightarrow>
        isInitialized s' \<and> init (Suc fuel') env s' = Some (Inr None, s'))"
  using init_initialized init_completes by blast

theorem C4_init_idempotent_witness:
  "init (Suc 0) (stubEnv stubDevices 0 commandError fresh (\<lambda>p. p) None) stubTransport
     = Some (Inr (Some True), initializedStub)
   \<and> isInitialized initializedStub
   \<and> init (Suc 0) (stubEnv stubDevices 0 commandError fresh (\<lambda>p. p) None) initializedStub
     = Some (Inr None, initializedStub)"
proof -
  let ?env = "stubEnv stubDevices 0 commandError fresh (\<lambda>p. p) None"
  have h: "init (Suc 0) ?env stubTransport = Some (Inr (Some True), initializedStub)"
    by (rule init_stub)
  have "isInitialized initializedStub
      \<and> init (Suc 0) ?env initializedStub = Some (Inr None, initializedStub)"
    using h C4_init_idempotent [where s = stubTransport and fuel = "Suc 0" and env = ?env
        and v = "Some True" and s' = initializedStub and fuel' = 0]
    by blast
  with h show ?thesis
    by blast
qed

text \<open>
  C3. \<^verbatim>\<open>_createAndWriteObjects\<close> is a left-to-right fold: it resolves with
  the starting progress when no object is left, and otherwise creates and writes the
  first object from the given offset and crc32 and goes on with the rest from the
  progress that object resolved with; a rejection ends the fold.
  \<^verbatim>\<open>sendFirmware\<close>, when the state is resumable, first writes the remaining
  partial object from the state's offset and crc32 and only then folds over the
  remaining objects from the progress of that write; otherwise it folds over them from
  the state's offset and crc32.
\<close>

theorem C3_sequential_fold:
  "createAndWriteObjects env [] type offset' crc32' s
     = (Inr \<lparr>offset = offset', crc32 = crc32'\<rparr>, s)
   \<and> createAndWriteObjects env (object # objects) type offset' crc32' s =
       (case createAndWriteObject env object type (Some offset') (Some crc32') s of
          (Inl e, s') \<Rightarrow> (Inl e, s')
        | (Inr progress, s') \<Rightarrow>
            createAndWriteObjects env objects type (offset progress) (crc32 progress) s')
   \<and> (getFirmwareState fuel env data (emitInitializeEvent ObjectType_DATA t) = Some (Inr state, t1)
        \<longrightarrow> sendFirmware fuel env data t =
          Some (if isResumable state then
                  (case writeObject env (remainingPartialObject state) ObjectType_DATA
                          (Some (offset state)) (Some (crc32 state)) t1 of
                     (Inl e, t2) \<Rightarrow> (Inl e, t2)
                   | (Inr progress, t2) \<Rightarrow>
                       createAndWriteObjects env (remainingObjects state) ObjectType_DATA
                         (offset progress) (crc32 progress) t2)
                else createAndWriteObjects env (remainingObjects state) ObjectType_DATA
                       (offset state) (crc32 state) t1))"
  using createAndWriteObjects_Nil createAndWriteObjects_Cons sendFirmware_eq
  by blast

theorem C3_sequential_fold_witness:
  "\<exists>t2. sendFirmware (Suc 0) (stubEnv stubDevices 0 commandError partly (\<lambda>p. p) None)
           firmware6 stubTransport
         = Some (Inr \<lparr>offset = 6, crc32 = 42\<rparr>, t2)
      \<and> actionsSince (selectedStub ObjectType_DATA) t2 =
          [WriteObject [3, 4] ObjectType_DATA (Some 2) (Some 14),
           ProgressUpdate \<lparr>stage = ''Transferring firmware'', event_offset = Some 4\<rparr>,
           CalculateChecksum, Execute,
           CreateObject ObjectType_DATA 2,
           WriteObject [5, 6] ObjectType_DATA (Some 4) (Some 28),
           ProgressUpdate \<lparr>stage = ''Transferring firmware'', event_offset = Some 6\<rparr>,
           CalculateChecksum, Execute]"
proof -
  let ?env = "stubEnv stubDevices 0 commandError partly (\<lambda>p. p) None"
  let ?state = "\<lparr>offset = 2, crc32 = 14, isResumable = True,
                 remainingPartialObject = [3, 4], remainingObjects = [[5, 6]]\<rparr>"
  have h: "getFirmwareState (Suc 0) ?env firmware6
      (emitInitializeEvent ObjectType_DATA stubTransport)
   = Some (Inr ?state, selectedStub ObjectType_DATA)"
    by (rule getFirmwareState_stub)
  have nil: "createAndWriteObjects env [] type offset' crc32' s
     = (Inr \<lparr>offset = offset', crc32 = crc32'\<rparr>, s)"
    for env :: "stubWorld env" and type offset' crc32' s
    using C3_sequential_fold [where env = env and type = type and offset' = offset'
        and crc32' = crc32' and s = s]
    by blast
  have cons: "createAndWriteObjects env (object # objects) type offset' crc32' s =
       (case createAndWriteObject env object type (Some offset') (Some crc32') s of
          (Inl e, s') \<Rightarrow> (Inl e, s')
        | (Inr progress, s') \<Rightarrow>
            createAndWriteObjects env objects type (offset progress) (crc32 progress) s')"
    for env :: "stubWorld env" and object objects type offset' crc32' s
    using C3_sequential_fold [where env = env and type = type and offset' = offset'
        and crc32' = crc32' and s = s and object = object and objects = objects]
    by blast
  have send: "sendFirmware (Suc 0) ?env firmware6 stubTransport =
     Some (if isResumable ?state then
             (case writeObject ?env (remainingPartialObject ?state) ObjectType_DATA
                     (Some (offset ?state)) (Some (crc32 ?state)) (selectedStub ObjectType_DATA) of
                (Inl e, t2) \<Rightarrow> (Inl e, t2)
              | (Inr progress, t2) \<Rightarrow>
                  createAndWriteObjects ?env (remainingObjects ?state) ObjectType_DATA
                    (offset progress) (crc32 progress) t2)
           else createAndWriteObjects ?env (remainingObjects ?state) ObjectType_DATA
                  (offset ?state) (crc32 ?state) (selectedStub ObjectType_DATA))"
    using h C3_sequential_fold [where env = ?env and fuel = "Suc 0" and data = firmware6
        and t = stubTransport and state = ?state and ?t1.0 = "selectedStub ObjectType_DATA"]
    by blast
  show ?thesis
    unfolding send
    by (simp add: nil cons createAndWriteObject_unrolled stub_run stub_write initializedStub_def
        selectedStub_def actionsSince_def)
qed

text \<open>
  C5. When the state is resumable, \<^verbatim>\<open>sendInitPacket\<close> writes the remaining
  data, and \<^verbatim>\<open>sendFirmware\<close> the remaining partial object, through
  \<^verbatim>\<open>_writeObject\<close> itself: the actions of that write begin with the one
  \<^verbatim>\<open>writeObject\<close> call of the writer and hold no \<^verbatim>\<open>createObject\<close>
  and no second write, and a rejection of it is the outcome of the transfer.
\<close>

theorem C5_resumed_write_not_retried:
  "(getInitPacketState fuel env data (emitInitializeEvent ObjectType_COMMAND s)
        = Some (Inr istate, s1)
      \<and> isResumable istate
      \<and> writeObject env (remainingData istate) ObjectType_COMMAND
            (Some (offset istate)) (Some (crc32 istate)) s1 = (r, s2)
    \<longrightarrow> sendInitPacket fuel env data s = Some (r, s2)
        \<and> (\<exists>xs. actionsSince s1 s2 =
                   WriteObject (remainingData istate) ObjectType_COMMAND
                     (Some (offset istate)) (Some (crc32 istate)) # xs
                \<and> (\<forall>a \<in> set xs. \<not> isCreateObject a \<and> \<not> isWriteObject a)))
   \<and> (getFirmwareState fuel env data (emitInitializeEvent ObjectType_DATA s)
        = Some (Inr fstate, s1)
      \<and> isResumable fstate
      \<and> writeObject env (remainingPartialObject fstate) ObjectType_DATA
            (Some (offset fstate)) (Some (crc32 fstate)) s1 = (Inl e, s2)
    \<longrightarrow> sendFirmware fuel env data s = Some (Inl e, s2)
        \<and> (\<exists>xs. actionsSince s1 s2 =
                   WriteObject (remainingPartialObject fstate) ObjectType_DATA
                     (Some (offset fstate)) (Some (crc32 fstate)) # xs
                \<and> (\<forall>a \<in> set xs. \<not> isCreateObject a \<and> \<not> isWriteObject a)))"
proof (intro conjI impI)
  assume a: "getInitPacketState fuel env data (emitInitializeEvent ObjectType_COMMAND s)
        = Some (Inr istate, s1)
      \<and> isResumable istate
      \<and> writeObject env (remainingData istate) ObjectType_COMMAND
            (Some (offset istate)) (Some (crc32 istate)) s1 = (r, s2)"
  then show "sendInitPacket fuel env data s = Some (r, s2)"
    by (simp add: sendInitPacket_eq)
  show "\<exists>xs. actionsSince s1 s2 =
                   WriteObject (remainingData istate) ObjectType_COMMAND
                     (Some (offset istate)) (Some (crc32 istate)) # xs
                \<and> (\<forall>a \<in> set xs. \<not> isCreateObject a \<and> \<not> isWriteObject a)"
    using a writeObject_actionsSince [of s1 env "remainingData istate" ObjectType_COMMAND
        "Some (offset istate)" "Some (crc32 istate)"]
    by simp
next
  assume a: "getFirmwareState fuel env data (emitInitializeEvent ObjectType_DATA s)
        = Some (Inr fstate, s1)
      \<and> isResumable fstate
      \<and> writeObject env (remainingPartialObject fstate) ObjectType_DATA
            (Some (offset fstate)) (Some (crc32 fstate)) s1 = (Inl e, s2)"
  then show "sendFirmware fuel env data s = Some (Inl e, s2)"
    by (simp add: sendFirmware_eq)
  show "\<exists>xs. actionsSince s1 s2 =
                   WriteObject (remainingPartialObject fstate) ObjectType_DATA
                     (Some (offset fstate)) (Some (crc32 fstate)) # xs
                \<and> (\<forall>a \<in> set xs. \<not> isCreateObject a \<and> \<not> isWriteObject a)"
    using a writeObject_actionsSince [of s1 env "remainingPartialObject fstate" ObjectType_DATA
        "Some (offset fstate)" "Some (crc32 fstate)"]
    by simp
qed

theorem C5_resumed_write_not_retried_witness:
  "(\<exists>t2. sendInitPacket (Suc 0)
            (stubEnv stubDevices 0 commandError partly (\<lambda>p. p\<lparr>crc32 := 1\<rparr>) None)
            firmware6 stubTransport
          = Some (Inl (createError ErrorCode_INVALID_CRC
                        ''Error when validating CRC. Got 1, but expected 42.''), t2)
        \<and> actionsSince (selectedStub ObjectType_COMMAND) t2 =
            [WriteObject [3, 4, 5, 6] ObjectType_COMMAND (Some 2) (Some 14),
             ProgressUpdate \<lparr>stage = ''Transferring init packet'', event_offset = None\<rparr>,
             CalculateChecksum])
   \<and> (\<exists>t2. sendFirmware (Suc 0)
            (stubEnv stubDevices 0 commandError partly (\<lambda>p. p\<lparr>crc32 := 1\<rparr>) None)
            firmware6 stubTransport
          = Some (Inl (createError ErrorCode_INVALID_CRC
                        ''Error when validating CRC. Got 1, but expected 28.''), t2)
        \<and> actionsSince (selectedStub ObjectType_DATA) t2 =
            [WriteObject [3, 4] ObjectType_DATA (Some 2) (Some 14),
             ProgressUpdate \<lparr>stage = ''Transferring firmware'', event_offset = Some 4\<rparr>,
             CalculateChecksum])"
proof -
  let ?env = "stubEnv stubDevices 0 commandError partly (\<lambda>p. p\<lparr>crc32 := 1\<rparr>) None"
  let ?istate = "\<lparr>offset = 2, crc32 = 14, isResumable = True,
                  remainingData = [3, 4, 5, 6]\<rparr>"
  let ?fstate = "\<lparr>offset = 2, crc32 = 14, isResumable = True,
                 remainingPartialObject = [3, 4], remainingObjects = [[5, 6]]\<rparr>"
  let ?ti = "\<lparr>params = stubParams, isInitialized = True,
      world = \<lparr>creates = 0, reached = \<lparr>offset = 6, crc32 = 42\<rparr>\<rparr>,
      trace = trace (selectedStub ObjectType_COMMAND) @
            [WriteObject [3, 4, 5, 6] ObjectType_COMMAND (Some 2) (Some 14),
             ProgressUpdate \<lparr>stage = ''Transferring init packet'', event_offset = None\<rparr>,
             CalculateChecksum]\<rparr>"
  let ?tf = "\<lparr>params = stubParams, isInitialized = True,
      world = \<lparr>creates = 0, reached = \<lparr>offset = 4, crc32 = 28\<rparr>\<rparr>,
      trace = trace (selectedStub ObjectType_DATA) @
            [WriteObject [3, 4] ObjectType_DATA (Some 2) (Some 14),
             ProgressUpdate \<lparr>stage = ''Transferring firmware'', event_offset = Some 4\<rparr>,
             CalculateChecksum]\<rparr>"
  have n: "string_of_nat (Suc 0) = ''1''" "string_of_nat 42 = ''42''" "string_of_nat 28 = ''28''"
    by (simp_all add: string_of_nat.simps)
  have hi: "getInitPacketState (Suc 0) ?env firmware6
      (emitInitializeEvent ObjectType_COMMAND stubTransport)
      = Some (Inr ?istate, selectedStub ObjectType_COMMAND)"
    by (rule getInitPacketState_stub)
  have wi: "writeObject ?env (remainingData ?istate) ObjectType_COMMAND
            (Some (offset ?istate)) (Some (crc32 ?istate)) (selectedStub ObjectType_COMMAND)
        = (Inl (createError ErrorCode_INVALID_CRC
                  ''Error when validating CRC. Got 1, but expected 42.''), ?ti)"
    by (simp add: stub_run stub_write initializedStub_def selectedStub_def n)
  have hf: "getFirmwareState (Suc 0) ?env firmware6
      (emitInitializeEvent ObjectType_DATA stubTransport)
      = Some (Inr ?fstate, selectedStub ObjectType_DATA)"
    by (rule getFirmwareState_stub)
  have wf: "writeObject ?env (remainingPartialObject ?fstate) ObjectType_DATA
            (Some (offset ?fstate)) (Some (crc32 ?fstate)) (selectedStub ObjectType_DATA)
        = (Inl (createError ErrorCode_INVALID_CRC
                  ''Error when validating CRC. Got 1, but expected 28.''), ?tf)"
    by (simp add: stub_run stub_write initializedStub_def selectedStub_def n)
  have ri: "isResumable ?istate" and rf: "isResumable ?fstate"
    by simp_all
  have "sendInitPacket (Suc 0) ?env firmware6 stubTransport
          = Some (Inl (createError ErrorCode_INVALID_CRC
                        ''Error when validating CRC. Got 1, but expected 42.''), ?ti)"
    using hi ri wi C5_resumed_write_not_retried [where fuel = "Suc 0" and env = ?env
        and data = firmware6 and s = stubTransport and istate = ?istate
        and ?s1.0 = "selectedStub ObjectType_COMMAND" and ?s2.0 = ?ti]
    by blast
  moreover have "sendFirmware (Suc 0) ?env firmware6 stubTransport
          = Some (Inl (createError ErrorCode_INVALID_CRC
                        ''Error when validating CRC. Got 1, but expected 28.''), ?tf)"
    using hf rf wf C5_resumed_write_not_retried [where fuel = "Suc 0" and env = ?env
        and data = firmware6 and s = stubTransport and fstate = ?fstate
        and ?s1.0 = "selectedStub ObjectType_DATA" and ?s2.0 = ?tf]
    by blast
  moreover have "actionsSince (selectedStub ObjectType_COMMAND) ?ti =
            [WriteObject [3, 4, 5, 6] ObjectType_COMMAND (Some 2) (Some 14),
             ProgressUpdate \<lparr>stage = ''Transferring init packet'', event_offset = None\<rparr>,
             CalculateChecksum]"
    by (simp add: actionsSince_def)
  moreover have "actionsSince (selectedStub ObjectType_DATA) ?tf =
            [WriteObject [3, 4] ObjectType_DATA (Some 2) (Some 14),
             ProgressUpdate \<lparr>stage = ''Transferring firmware'', event_offset = Some 4\<rparr>,
             CalculateChecksum]"
    by (simp add: actionsSince_def)
  ultimately show ?thesis
    by blast
qed

text \<open>
  C7. \<^verbatim>\<open>waitForDisconnection\<close> is to resolve at once only when no device
  with the target address is connected, and otherwise to wait for the target's
  disconnection or the timeout; \<^verbatim>\<open>_getConnectedDevice\<close> is documented to
  return the connected device for the address. It looks at the first entry with the
  address only. On a table in which a stale entry of the target address stands before
  the connected target, the target is in the table, has the target address and is
  connected, and still \<^verbatim>\<open>_getConnectedDevice\<close> gives nothing and
  \<^verbatim>\<open>waitForDisconnection\<close> resolves at once, with no timer and no listener.
  Without the stale entry the promise is pending.
\<close>

theorem C7_waitForDisconnection_stale_entry:
  "(''target.1'', targetDevice)
      \<in> set (adapter_getDevices (stubEnv staleDevices 0 commandError fresh (\<lambda>p. p) None)
               (world stubTransport))
   \<and> address targetDevice = targetAddress (params stubTransport)
   \<and> connected targetDevice
   \<and> getConnectedDevice (stubEnv staleDevices 0 commandError fresh (\<lambda>p. p) None)
         (targetAddress (params stubTransport)) (world stubTransport) = None
   \<and> waitForDisconnection (stubEnv staleDevices 0 commandError fresh (\<lambda>p. p) None)
         stubTransport
       = \<lparr>settled = Resolved, pendingTimeout = None, disconnectionListener = None\<rparr>
   \<and> waitForDisconnection (stubEnv [(''target.1'', targetDevice)] 0 commandError fresh (\<lambda>p. p) None)
         stubTransport
       = \<lparr>settled = Pending, pendingTimeout = Some 10000,
          disconnectionListener = Some ''target.1''\<rparr>"
  by (simp add: waitForDisconnection_def getConnectedDevice_def stubEnv_simps staleDevices_def
      targetDevice_def stubTransport_def stubParams_def TIMEOUT_MS_def)

text \<open>
  C8. A connection parameter update request of the connected target device is to be
  passed to \<^verbatim>\<open>adapter.updateConnectionParameters\<close>. On the table with a
  stale entry before the connected target, the request of the target (in the table,
  with the target address, connected) is dropped: the handler returns without calling
  the adapter and without an error. Without the stale entry the request is passed on.
\<close>

theorem C8_connParamUpdateRequest_stale_entry:
  "(''target.1'', targetDevice)
      \<in> set (adapter_getDevices (stubEnv staleDevices 0 commandError fresh (\<lambda>p. p) None)
               (world initializedStub))
   \<and> address targetDevice = targetAddress (params initializedStub)
   \<and> connected targetDevice
   \<and> handleConnParamUpdateRequest (stubEnv staleDevices 0 commandError fresh (\<lambda>p. p) None)
         targetDevice DEFAULT_CONNECTION_PARAMS initializedStub
       = (None, initializedStub)
   \<and> handleConnParamUpdateRequest
         (stubEnv [(''target.1'', targetDevice)] 0 commandError fresh (\<lambda>p. p) None)
         targetDevice DEFAULT_CONNECTION_PARAMS initializedStub
       = (None,
          initializedStub
            \<lparr>trace := trace initializedStub
               @ [UpdateConnectionParameters ''target.1'' DEFAULT_CONNECTION_PARAMS]\<rparr>)"
  by (simp add: handleConnParamUpdateRequest_def getConnectedDevice_def stubEnv_simps
      staleDevices_def targetDevice_def initializedStub_def stubParams_def record_action_def)

end
